theory Spec2Isabelle
  imports Complex_Main
begin

section \<open>Errors raised by the Python code\<close>

text \<open>
  Every exception the modelled code can raise is a value of this type; a function that
  can raise returns \<open>error + 'a\<close>, with \<open>Inl\<close> for the exception.
\<close>

datatype error =
    ValueError
  | TypeError
  | IndexError
  | OverflowError
  | ZeroDivisionError
  | InvalidParameter
  | OptimizationFailed
  | NonContiguousPeriods

section \<open>Dominance between fitness vectors (utils/tools.py)\<close>

text \<open>
  \<^verbatim>\<open>dominate\<close> walks \<^verbatim>\<open>zip(fitness_1, fitness_2)\<close> with the flag
  \<^verbatim>\<open>not_equal\<close>: a strictly greater component sets the flag, a strictly smaller
  one returns \<^verbatim>\<open>False\<close> at once, and the flag is returned when the pairs run out.
  Fitness values are modelled as reals. The flag is named \<open>not_equal_flag\<close> here,
  since \<open>not_equal\<close> is already the name of HOL's disequality.
\<close>

fun dominate_loop :: "bool \<Rightarrow> (real \<times> real) list \<Rightarrow> bool" where
  "dominate_loop not_equal_flag [] = not_equal_flag"
| "dominate_loop not_equal_flag ((self_value, other_value) # rest) =
     (if self_value > other_value then dominate_loop True rest
      else if self_value < other_value then False
      else dominate_loop not_equal_flag rest)"

definition dominate :: "real list \<Rightarrow> real list \<Rightarrow> bool" where
  "dominate fitness_1 fitness_2 = dominate_loop False (zip fitness_1 fitness_2)"

text \<open>
  \<^verbatim>\<open>dominate_slow\<close> compares the two arrays elementwise. NumPy first broadcasts the
  operands: one-dimensional arrays of equal length are paired position by position, an
  array of length one is repeated against the other, and any other pair of lengths
  raises \<^verbatim>\<open>ValueError\<close>.
\<close>

definition broadcast_pairs :: "real list \<Rightarrow> real list \<Rightarrow> error + (real \<times> real) list" where
  "broadcast_pairs xs ys =
     (if length xs = length ys then Inr (zip xs ys)
      else if length xs = 1 then Inr (map (\<lambda>y. (hd xs, y)) ys)
      else if length ys = 1 then Inr (map (\<lambda>x. (x, hd ys)) xs)
      else Inl ValueError)"

definition dominate_slow :: "real list \<Rightarrow> real list \<Rightarrow> error + bool" where
  "dominate_slow fitness_1 fitness_2 =
     (case broadcast_pairs fitness_1 fitness_2 of
        Inl e \<Rightarrow> Inl e
      | Inr ps \<Rightarrow> Inr (list_all (\<lambda>(x, y). x \<ge> y) ps \<and> list_ex (\<lambda>(x, y). x > y) ps))"

section \<open>Arrays and float division\<close>

text \<open>
  A two-dimensional NumPy array carries its shape beside its rows, so that an array
  with no rows still has a column count. A well-formed array has \<open>shape0\<close> rows of
  \<open>shape1\<close> entries each.
\<close>

record 'a ndarray2 =
  shape0 :: nat
  shape1 :: nat
  rows :: "'a list list"

definition wf_ndarray2 :: "'a ndarray2 \<Rightarrow> bool" where
  "wf_ndarray2 A \<longleftrightarrow>
     length (rows A) = shape0 A \<and> list_all (\<lambda>r. length r = shape1 A) (rows A)"

text \<open>
  Floats are modelled as reals. NumPy's division by zero raises nothing: it yields
  \<^verbatim>\<open>nan\<close> or an infinity. Such a result is \<open>None\<close> here, a finite one is \<open>Some\<close>.
\<close>

definition np_divide :: "real \<Rightarrow> real \<Rightarrow> real option" where
  "np_divide x y = (if y = 0 then None else Some (x / y))"

section \<open>Portfolio returns (utils/tools.py)\<close>

text \<open>
  \<^verbatim>\<open>portfolio_returns\<close> starts from \<^verbatim>\<open>np.zeros(m)\<close> and, for \<^verbatim>\<open>i\<close> in
  \<^verbatim>\<open>range(n)\<close>, adds row \<^verbatim>\<open>i\<close> of the matrix scaled by \<^verbatim>\<open>weights[i]\<close>.
  Reading \<^verbatim>\<open>weights[i]\<close> past the end of the weights raises \<^verbatim>\<open>IndexError\<close>.
\<close>

fun portfolio_returns_loop ::
  "real list list \<Rightarrow> real list \<Rightarrow> nat list \<Rightarrow> real list \<Rightarrow> error + real list" where
  "portfolio_returns_loop asset_returns weights [] returns = Inr returns"
| "portfolio_returns_loop asset_returns weights (i # rest) returns =
     (if i < length weights
      then portfolio_returns_loop asset_returns weights rest
             (map2 (+) returns (map (\<lambda>x. x * weights ! i) (asset_returns ! i)))
      else Inl IndexError)"

definition portfolio_returns :: "real ndarray2 \<Rightarrow> real list \<Rightarrow> error + real list" where
  "portfolio_returns asset_returns weights =
     (let n = shape0 asset_returns; m = shape1 asset_returns
      in portfolio_returns_loop (rows asset_returns) weights [0..<n] (replicate m 0))"

section \<open>Random weights (utils/tools.py)\<close>

text \<open>
  The two random draws of \<^verbatim>\<open>rand_weights\<close> are arguments of the model:
  \<open>k_draw\<close> is what \<^verbatim>\<open>np.random.rand(n)\<close> returned (\<open>n\<close> numbers of the half-open
  interval from 0 to 1) and \<open>zeros_idx_draw\<close> what
  \<^verbatim>\<open>np.random.choice(n, zeros, replace=False)\<close> returned (\<open>zeros\<close> distinct indices
  below \<open>n\<close>). \<^verbatim>\<open>choice\<close> raises \<^verbatim>\<open>ValueError\<close> when asked for more than \<open>n\<close>
  indices. The final division is NumPy's: a zero divisor gives no exception.
\<close>

definition rand_draw :: "nat \<Rightarrow> real list \<Rightarrow> bool" where
  "rand_draw n k \<longleftrightarrow> length k = n \<and> list_all (\<lambda>x. 0 \<le> x \<and> x < 1) k"

definition choice_draw :: "nat \<Rightarrow> nat \<Rightarrow> nat list \<Rightarrow> bool" where
  "choice_draw n sz idx \<longleftrightarrow> length idx = sz \<and> distinct idx \<and> list_all (\<lambda>i. i < n) idx"

definition rand_weights ::
  "nat \<Rightarrow> int \<Rightarrow> real list \<Rightarrow> nat list \<Rightarrow> error + real option list" where
  "rand_weights n zeros k_draw zeros_idx_draw =
     (if zeros > 0 then
        (if nat zeros > n then Inl ValueError
         else let k = fold (\<lambda>i k. k[i := 0]) zeros_idx_draw k_draw
              in Inr (map (\<lambda>x. np_divide x (sum_list k)) k))
      else Inr (map (\<lambda>x. np_divide x (sum_list k_draw)) k_draw))"

section \<open>Walk-forward periods (utils/tools.py)\<close>

text \<open>
  A \<^verbatim>\<open>datetime.date\<close> is its proleptic Gregorian ordinal, from 1 (0001-01-01) to
  3652059 (9999-12-31). \<^verbatim>\<open>timedelta(days=d)\<close> raises \<^verbatim>\<open>OverflowError\<close> beyond
  999999999 days either way, and so does adding a delta that leaves the range of dates.
\<close>

type_synonym date = int

definition date_min :: date where
  "date_min = 1"

definition date_max :: date where
  "date_max = 3652059"

definition timedelta :: "int \<Rightarrow> error + int" where
  "timedelta days = (if \<bar>days\<bar> > 999999999 then Inl OverflowError else Inr days)"

definition date_add :: "date \<Rightarrow> int \<Rightarrow> error + date" where
  "date_add d days =
     (case timedelta days of
        Inl e \<Rightarrow> Inl e
      | Inr delta \<Rightarrow>
          if date_min \<le> d + delta \<and> d + delta \<le> date_max then Inr (d + delta)
          else Inl OverflowError)"

record walk_forward_args =
  start_date :: date
  end_date :: date
  train_duration :: int
  test_duration :: int
  full_period :: bool

type_synonym period = "date \<times> date"

abbreviation train_end_of :: "period \<times> period \<Rightarrow> date" where
  "train_end_of y \<equiv> snd (fst y)"

abbreviation test_start_of :: "period \<times> period \<Rightarrow> date" where
  "test_start_of y \<equiv> fst (snd y)"

abbreviation test_end_of :: "period \<times> period \<Rightarrow> date" where
  "test_end_of y \<equiv> snd (snd y)"

text \<open>
  \<^verbatim>\<open>walk_forward\<close> is a generator. Its state between two calls of \<^verbatim>\<open>next\<close> is
  the value of \<^verbatim>\<open>train_start\<close> and the place where it stands: before the first
  iteration, suspended at the \<^verbatim>\<open>yield\<close> (the increment of \<^verbatim>\<open>train_start\<close> is
  still to run), or finished. A call of \<^verbatim>\<open>next\<close> yields a pair of periods, returns
  (\<^verbatim>\<open>StopIteration\<close>) or raises.
\<close>

datatype gen_state = Loop_head date | After_yield date | Finished

datatype gen_event = Yield "period \<times> period" | Return | Raise error

definition walk_forward_body :: "walk_forward_args \<Rightarrow> date \<Rightarrow> gen_event \<times> gen_state" where
  "walk_forward_body a train_start =
     (case date_add train_start (train_duration a) of
        Inl e \<Rightarrow> (Raise e, Finished)
      | Inr train_end \<Rightarrow>
          let test_start = train_end in
          (case date_add test_start (test_duration a) of
             Inl e \<Rightarrow> (Raise e, Finished)
           | Inr test_end \<Rightarrow>
               if test_end > end_date a then
                 (if full_period a \<or> test_start \<ge> end_date a then (Return, Finished)
                  else (Yield ((train_start, train_end), (test_start, end_date a)),
                        After_yield train_start))
               else (Yield ((train_start, train_end), (test_start, test_end)),
                     After_yield train_start)))"

fun walk_forward_next :: "walk_forward_args \<Rightarrow> gen_state \<Rightarrow> gen_event \<times> gen_state" where
  "walk_forward_next a (Loop_head train_start) = walk_forward_body a train_start"
| "walk_forward_next a (After_yield train_start) =
     (case date_add train_start (test_duration a) of
        Inl e \<Rightarrow> (Raise e, Finished)
      | Inr train_start' \<Rightarrow> walk_forward_body a train_start')"
| "walk_forward_next a Finished = (Return, Finished)"

definition walk_forward :: "walk_forward_args \<Rightarrow> gen_state" where
  "walk_forward a = Loop_head (start_date a)"

text \<open>The pairs a consumer receives from at most \<open>k\<close> calls of \<^verbatim>\<open>next\<close>, in order.\<close>

fun walk_forward_yields ::
  "nat \<Rightarrow> walk_forward_args \<Rightarrow> gen_state \<Rightarrow> (period \<times> period) list" where
  "walk_forward_yields 0 a s = []"
| "walk_forward_yields (Suc k) a s =
     (case walk_forward_next a s of
        (Yield y, s') \<Rightarrow> y # walk_forward_yields k a s'
      | _ \<Rightarrow> [])"

text \<open>The value of \<^verbatim>\<open>train_start\<close> with which the next iteration of the loop runs.\<close>

fun pending_train_start :: "walk_forward_args \<Rightarrow> gen_state \<Rightarrow> date" where
  "pending_train_start a (Loop_head t) = t"
| "pending_train_start a (After_yield t) = t + test_duration a"
| "pending_train_start a Finished = 0"

section \<open>Sample statistics\<close>

text \<open>
  The statistics the tests compare against, as NumPy computes them: \<^verbatim>\<open>mean\<close> divides
  the sum by the length, \<^verbatim>\<open>std(ddof=d)\<close> is the square root of the sum of squared
  deviations from the mean divided by the length less \<open>d\<close> (never below zero). On a
  series too short for the divisor they are not a number, which is \<open>None\<close> here.
\<close>

definition np_mean :: "real list \<Rightarrow> real option" where
  "np_mean xs = np_divide (sum_list xs) (real (length xs))"

definition np_std :: "nat \<Rightarrow> real list \<Rightarrow> real option" where
  "np_std ddof xs =
     (case np_mean xs of
        None \<Rightarrow> None
      | Some mu \<Rightarrow>
          map_option sqrt
            (np_divide (\<Sum>x\<leftarrow>xs. (x - mu)\<^sup>2) (real (length xs - ddof))))"

text \<open>
  Modelled from the spec: the downside deviation of \<^verbatim>\<open>utils/metrics.py\<close>, which is not
  among the sources. Section 4.3 gives it as
  \<^verbatim>\<open>sqrt(mean(min(0, r - mean(r))^2) * n/(n-1))\<close>, the semideviation about the mean.
\<close>

definition downside_std :: "real list \<Rightarrow> real option" where
  "downside_std xs =
     (case np_mean xs of
        None \<Rightarrow> None
      | Some mu \<Rightarrow>
          (case np_mean (map (\<lambda>r. (min 0 (r - mu))\<^sup>2) xs) of
             None \<Rightarrow> None
           | Some msq \<Rightarrow>
               map_option (\<lambda>q. sqrt (msq * q))
                 (np_divide (real (length xs)) (real (length xs) - 1))))"

section \<open>Portfolio and MultiPeriodPortfolio (portfolio.py)\<close>

text \<open>
  Modelled from the spec: the class \<^verbatim>\<open>Portfolio\<close> of \<^verbatim>\<open>portfolio.py\<close>, which is not
  among the sources. Sections 3, 4.3 and 8: a portfolio owns a weight vector and the
  return matrix it was computed against, and is tied to a sub-period; its period returns
  are the weighted combination \<^verbatim>\<open>w.R\<close> of the asset returns; its mean and std are
  the sample mean and the sample standard deviation with divisor \<open>n - 1\<close> of those
  period returns.
\<close>

record Portfolio =
  weights :: "real list"
  assets_returns :: "real ndarray2"
  period :: period

definition Portfolio_returns :: "Portfolio \<Rightarrow> real list" where
  "Portfolio_returns p =
     map (\<lambda>j. \<Sum>i<shape0 (assets_returns p). weights p ! i * rows (assets_returns p) ! i ! j)
       [0..<shape1 (assets_returns p)]"

definition Portfolio_mean :: "Portfolio \<Rightarrow> real option" where
  "Portfolio_mean p = np_mean (Portfolio_returns p)"

definition Portfolio_std :: "Portfolio \<Rightarrow> real option" where
  "Portfolio_std p = np_std 1 (Portfolio_returns p)"

text \<open>
  Modelled from the spec: the class \<^verbatim>\<open>MultiPeriodPortfolio\<close> of \<^verbatim>\<open>portfolio.py\<close>,
  which is not among the sources. Section 3: an ordered sequence of portfolios, each tied
  to a sub-period; sub-periods must not overlap and must come in non-decreasing order of
  start date, anything else being a usage error (\<^verbatim>\<open>NonContiguousPeriods\<close> in section
  7); the return series is the concatenation, in period order, of the sub-portfolios'
  returns, and every aggregate metric is computed over that series.
\<close>

record MultiPeriodPortfolio =
  portfolios :: "Portfolio list"

definition MultiPeriodPortfolio_init :: MultiPeriodPortfolio where
  "MultiPeriodPortfolio_init = \<lparr>portfolios = []\<rparr>"

definition MultiPeriodPortfolio_add ::
  "MultiPeriodPortfolio \<Rightarrow> Portfolio \<Rightarrow> error + MultiPeriodPortfolio" where
  "MultiPeriodPortfolio_add m p =
     (if portfolios m \<noteq> []
         \<and> (fst (period p) < snd (period (last (portfolios m)))
            \<or> fst (period p) < fst (period (last (portfolios m))))
      then Inl NonContiguousPeriods
      else Inr (m\<lparr>portfolios := portfolios m @ [p]\<rparr>))"

text \<open>Adding a list of portfolios one after the other, as the test's loop does.\<close>

fun MultiPeriodPortfolio_add_all ::
  "MultiPeriodPortfolio \<Rightarrow> Portfolio list \<Rightarrow> error + MultiPeriodPortfolio" where
  "MultiPeriodPortfolio_add_all m [] = Inr m"
| "MultiPeriodPortfolio_add_all m (p # ps) =
     (case MultiPeriodPortfolio_add m p of
        Inl e \<Rightarrow> Inl e
      | Inr m' \<Rightarrow> MultiPeriodPortfolio_add_all m' ps)"

definition MultiPeriodPortfolio_returns :: "MultiPeriodPortfolio \<Rightarrow> real list" where
  "MultiPeriodPortfolio_returns m = concat (map Portfolio_returns (portfolios m))"

definition MultiPeriodPortfolio_mean :: "MultiPeriodPortfolio \<Rightarrow> real option" where
  "MultiPeriodPortfolio_mean m = np_mean (MultiPeriodPortfolio_returns m)"

definition MultiPeriodPortfolio_std :: "MultiPeriodPortfolio \<Rightarrow> real option" where
  "MultiPeriodPortfolio_std m = np_std 1 (MultiPeriodPortfolio_returns m)"

definition MultiPeriodPortfolio_downside_std :: "MultiPeriodPortfolio \<Rightarrow> real option" where
  "MultiPeriodPortfolio_downside_std m = downside_std (MultiPeriodPortfolio_returns m)"

section \<open>Price tables (pandas) and Assets (assets.py)\<close>

text \<open>
  A cell of a price table is a finite number or missing (\<^verbatim>\<open>NaN\<close>, here \<open>None\<close>).
  A \<^verbatim>\<open>DataFrame\<close> has one row of cells per label of its index and one cell per
  column label in each row; its index is a \<^verbatim>\<open>DatetimeIndex\<close> or of another class.
\<close>

type_synonym cell = "real option"

datatype index_type = DatetimeIndex | OtherIndex

record DataFrame =
  index_type :: index_type
  index :: "date list"
  columns :: "string list"
  cells :: "cell list list"

definition wf_DataFrame :: "DataFrame \<Rightarrow> bool" where
  "wf_DataFrame df \<longleftrightarrow>
     length (cells df) = length (index df)
     \<and> list_all (\<lambda>r. length r = length (columns df)) (cells df)"

text \<open>\<^verbatim>\<open>DataFrame.empty\<close>: an axis of the table has length 0.\<close>

definition DataFrame_empty :: "DataFrame \<Rightarrow> bool" where
  "DataFrame_empty df \<longleftrightarrow> index df = [] \<or> columns df = []"

text \<open>
  \<^verbatim>\<open>isna().sum(axis=0)\<close> counts the missing cells of each column,
  \<^verbatim>\<open>isna().sum(axis=1)\<close> those of each row. \<^verbatim>\<open>drop\<close> removes by label: every
  column (or row) that carries one of the labels goes.
\<close>

definition count_nan_axis0 :: "DataFrame \<Rightarrow> nat list" where
  "count_nan_axis0 df =
     map (\<lambda>j. length (filter (\<lambda>r. r ! j = None) (cells df))) [0..<length (columns df)]"

definition count_nan_axis1 :: "DataFrame \<Rightarrow> nat list" where
  "count_nan_axis1 df = map (\<lambda>r. length (filter (\<lambda>c. c = None) r)) (cells df)"

definition drop_columns :: "string list \<Rightarrow> DataFrame \<Rightarrow> DataFrame" where
  "drop_columns labels df =
     (let keep = filter (\<lambda>j. columns df ! j \<notin> set labels) [0..<length (columns df)]
      in df\<lparr>columns := map (\<lambda>j. columns df ! j) keep,
            cells := map (\<lambda>r. map (\<lambda>j. r ! j) keep) (cells df)\<rparr>)"

definition drop_rows :: "date list \<Rightarrow> DataFrame \<Rightarrow> DataFrame" where
  "drop_rows labels df =
     (let keep = filter (\<lambda>i. index df ! i \<notin> set labels) [0..<length (index df)]
      in df\<lparr>index := map (\<lambda>i. index df ! i) keep,
            cells := map (\<lambda>i. cells df ! i) keep\<rparr>)"

text \<open>
  \<^verbatim>\<open>fillna(method='ffill')\<close> replaces a missing cell by the last present cell above
  it in its column, if there is one; \<^verbatim>\<open>'bfill'\<close> does the same from below.
\<close>

fun ffill_rows :: "cell list \<Rightarrow> cell list list \<Rightarrow> cell list list" where
  "ffill_rows prev [] = []"
| "ffill_rows prev (r # rs) =
     (let r' = map2 (\<lambda>p c. case c of None \<Rightarrow> p | Some v \<Rightarrow> Some v) prev r
      in r' # ffill_rows r' rs)"

definition ffill :: "DataFrame \<Rightarrow> DataFrame" where
  "ffill df = df\<lparr>cells := ffill_rows (replicate (length (columns df)) None) (cells df)\<rparr>"

definition bfill :: "DataFrame \<Rightarrow> DataFrame" where
  "bfill df =
     df\<lparr>cells := rev (ffill_rows (replicate (length (columns df)) None) (rev (cells df)))\<rparr>"

text \<open>
  \<^verbatim>\<open>pct_change()\<close> with its defaults fills forward, then divides each row by the row
  before it and subtracts 1; the first row has no row before it and is all missing. A
  division by a zero price gives no finite number. \<open>rows_from 1\<close> is the slice
  \<^verbatim>\<open>[1:]\<close>, \<open>to_numpy\<close> and \<open>ndarray_T\<close> are \<^verbatim>\<open>.to_numpy()\<close> and \<^verbatim>\<open>.T\<close>.
\<close>

definition cell_pct :: "cell \<Rightarrow> cell \<Rightarrow> cell" where
  "cell_pct x prev =
     (case (x, prev) of
        (Some a, Some b) \<Rightarrow> map_option (\<lambda>q. q - 1) (np_divide a b)
      | _ \<Rightarrow> None)"

definition pct_change :: "DataFrame \<Rightarrow> DataFrame" where
  "pct_change df =
     (let data = cells (ffill df);
          shifted = replicate (length (columns df)) None # butlast data
      in df\<lparr>cells := map2 (map2 cell_pct) data shifted\<rparr>)"

definition rows_from :: "nat \<Rightarrow> DataFrame \<Rightarrow> DataFrame" where
  "rows_from k df = df\<lparr>index := drop k (index df), cells := drop k (cells df)\<rparr>"

definition to_numpy :: "DataFrame \<Rightarrow> cell ndarray2" where
  "to_numpy df =
     \<lparr>shape0 = length (index df), shape1 = length (columns df), rows = cells df\<rparr>"

definition ndarray_T :: "'a ndarray2 \<Rightarrow> 'a ndarray2" where
  "ndarray_T A =
     \<lparr>shape0 = shape1 A, shape1 = shape0 A,
      rows = map (\<lambda>j. map (\<lambda>r. r ! j) (rows A)) [0..<shape1 A]\<rparr>"

text \<open>
  \<^verbatim>\<open>_prices_check\<close> and \<^verbatim>\<open>_preprocessing\<close>. A threshold is an
  \<^verbatim>\<open>Optional[float]\<close>; comparing \<^verbatim>\<open>None\<close> with a number raises
  \<^verbatim>\<open>TypeError\<close>. The row threshold is taken against \<open>m\<close>, the number of columns
  before any column was dropped, as in the source.
\<close>

definition Assets_prices_check :: "DataFrame \<Rightarrow> error + unit" where
  "Assets_prices_check prices =
     (if DataFrame_empty prices then Inl ValueError
      else if index_type prices \<noteq> DatetimeIndex then Inl TypeError
      else Inr ())"

definition Assets_preprocessing ::
  "DataFrame \<Rightarrow> real option \<Rightarrow> real option \<Rightarrow> error + DataFrame" where
  "Assets_preprocessing prices asset_missing_threshold dates_missing_threshold =
     (case asset_missing_threshold of
        None \<Rightarrow> Inl TypeError
      | Some amt \<Rightarrow>
     if \<not> (0 < amt \<and> amt < 1) then Inl ValueError
     else
     (case dates_missing_threshold of
        None \<Rightarrow> Inl TypeError
      | Some dmt \<Rightarrow>
     if \<not> (0 < dmt \<and> dmt < 1) then Inl ValueError
     else
       let n = length (index prices); m = length (columns prices);
           to_drop = map fst (filter (\<lambda>(label, c). real c > real n * dmt)
                        (zip (columns prices) (count_nan_axis0 prices)));
           prices1 = (if length to_drop > 0 then drop_columns to_drop prices else prices);
           to_drop = map fst (filter (\<lambda>(label, c). real c > real m * amt)
                        (zip (index prices1) (count_nan_axis1 prices1)));
           prices2 = (if length to_drop > 0 then drop_rows to_drop prices1 else prices1)
       in Inr (bfill (ffill prices2))))"

text \<open>
  An \<^verbatim>\<open>Assets\<close> object holds its price table and the cache \<^verbatim>\<open>_returns\<close> of the
  property \<^verbatim>\<open>returns\<close>. The constructor is modelled from \<^verbatim>\<open>_prices_check\<close> on:
  its argument is the table already selected by dates and names. A property that fills
  the cache returns its value together with the updated object.
\<close>

record Assets =
  prices :: DataFrame
  returns_cache :: "cell ndarray2 option"

definition Assets_init ::
  "DataFrame \<Rightarrow> bool \<Rightarrow> real option \<Rightarrow> real option \<Rightarrow> error + Assets" where
  "Assets_init prices_arg preprocessing asset_missing_threshold dates_missing_threshold =
     (case Assets_prices_check prices_arg of
        Inl e \<Rightarrow> Inl e
      | Inr _ \<Rightarrow>
          if preprocessing then
            (case Assets_preprocessing prices_arg asset_missing_threshold dates_missing_threshold of
               Inl e \<Rightarrow> Inl e
             | Inr prices' \<Rightarrow> Inr \<lparr>prices = prices', returns_cache = None\<rparr>)
          else Inr \<lparr>prices = prices_arg, returns_cache = None\<rparr>)"

definition Assets_returns :: "Assets \<Rightarrow> cell ndarray2 \<times> Assets" where
  "Assets_returns self =
     (case returns_cache self of
        None \<Rightarrow>
          let r = ndarray_T (to_numpy (rows_from 1 (pct_change (prices self))))
          in (r, self\<lparr>returns_cache := Some r\<rparr>)
      | Some r \<Rightarrow> (r, self))"

definition Assets_asset_nb :: "Assets \<Rightarrow> nat \<times> Assets" where
  "Assets_asset_nb self = (let (r, self') = Assets_returns self in (shape0 r, self'))"

definition Assets_date_nb :: "Assets \<Rightarrow> nat \<times> Assets" where
  "Assets_date_nb self = (let (r, self') = Assets_returns self in (shape1 r, self'))"

section \<open>Mean-CVaR optimisation (optimization/cvar.py)\<close>

text \<open>
  Modelled from the spec: the enumeration \<^verbatim>\<open>InvestmentType\<close> and the helper
  \<^verbatim>\<open>get_investment_target\<close>, which \<^verbatim>\<open>mean_cvar\<close> imports and which are not
  among the sources. Section 4.2: fully invested means the weights sum to 1, market
  neutral that they sum to 0, unconstrained that there is no budget constraint.
\<close>

datatype InvestmentType = FULLY_INVESTED | MARKET_NEUTRAL | UNCONSTRAINED

fun get_investment_target :: "InvestmentType \<Rightarrow> real option" where
  "get_investment_target FULLY_INVESTED = Some 1"
| "get_investment_target MARKET_NEUTRAL = Some 0"
| "get_investment_target UNCONSTRAINED = None"

text \<open>
  Modelled from the spec: the helper \<^verbatim>\<open>get_lower_and_upper_bounds\<close>, not among the
  sources. Section 4.2: the bounds are a lower and an upper bound per asset, or a single
  pair broadcast to all assets; bounds with a lower above an upper are malformed
  (\<^verbatim>\<open>InvalidParameter\<close>). The docstring of \<^verbatim>\<open>mean_cvar\<close> writes no bound as
  \<^verbatim>\<open>None\<close>. Arrays that do not have one entry per asset are taken as malformed too.
\<close>

datatype weight_bounds =
    Bounds_arrays "real list" "real list"
  | Bounds_pair "real option" "real option"

definition get_lower_and_upper_bounds ::
  "weight_bounds \<Rightarrow> nat \<Rightarrow> error + (real option list \<times> real option list)" where
  "get_lower_and_upper_bounds weight_bounds assets_number =
     (let (lower, upper) =
            (case weight_bounds of
               Bounds_arrays lo up \<Rightarrow> (map Some lo, map Some up)
             | Bounds_pair lo up \<Rightarrow> (replicate assets_number lo, replicate assets_number up))
      in if length lower \<noteq> assets_number \<or> length upper \<noteq> assets_number
            \<or> list_ex (\<lambda>(l, u). case (l, u) of (Some a, Some b) \<Rightarrow> a > b | _ \<Rightarrow> False)
                 (zip lower upper)
         then Inl InvalidParameter
         else Inr (lower, upper))"

text \<open>
  The convex program handed to the solver. Its variables are \<^verbatim>\<open>w\<close> (one entry per
  asset), the scalar \<^verbatim>\<open>alpha\<close> and \<^verbatim>\<open>u\<close> (one entry per observation); an
  assignment gives each a value. A constraint is a predicate on the value of the
  parameter \<^verbatim>\<open>target_cvar\<close> and on an assignment, and the problem keeps the list of
  constraints in the order the code builds it.
\<close>

record assignment =
  w_value :: "real list"
  alpha_value :: real
  u_value :: "real list"

datatype objective = Maximize "assignment \<Rightarrow> real" | Minimize "assignment \<Rightarrow> real"

record problem =
  w_shape :: nat
  u_shape :: nat
  objective :: objective
  constraints :: "(real \<Rightarrow> assignment \<Rightarrow> bool) list"

text \<open>
  The array expressions of the constraints: \<^verbatim>\<open>@\<close> of two vectors and of a matrix and
  a vector, the sum of two vectors, the sum of a vector and a scalar (broadcast), and the
  elementwise comparisons, which constrain every entry. A missing bound constrains
  nothing.
\<close>

definition dot :: "real list \<Rightarrow> real list \<Rightarrow> real" where
  "dot xs ys = sum_list (map2 (*) xs ys)"

definition matvec :: "real ndarray2 \<Rightarrow> real list \<Rightarrow> real list" where
  "matvec A x = map (\<lambda>row. dot row x) (rows A)"

definition vec_add :: "real list \<Rightarrow> real list \<Rightarrow> real list" where
  "vec_add xs ys = map2 (+) xs ys"

definition vec_add_scalar :: "real list \<Rightarrow> real \<Rightarrow> real list" where
  "vec_add_scalar xs c = map (\<lambda>x. x + c) xs"

definition vec_ge_scalar :: "real list \<Rightarrow> real \<Rightarrow> bool" where
  "vec_ge_scalar xs c \<longleftrightarrow> list_all (\<lambda>x. x \<ge> c) xs"

definition vec_ge_bounds :: "real list \<Rightarrow> real option list \<Rightarrow> bool" where
  "vec_ge_bounds xs lower \<longleftrightarrow>
     list_all (\<lambda>(x, l). case l of None \<Rightarrow> True | Some b \<Rightarrow> x \<ge> b) (zip xs lower)"

definition vec_le_bounds :: "real list \<Rightarrow> real option list \<Rightarrow> bool" where
  "vec_le_bounds xs upper \<longleftrightarrow>
     list_all (\<lambda>(x, u). case u of None \<Rightarrow> True | Some b \<Rightarrow> x \<le> b) (zip xs upper)"

text \<open>
  The part of \<^verbatim>\<open>mean_cvar\<close> that builds the problem, with its raises in the order
  of the statements. \<^verbatim>\<open>cp.Variable(assets_number)\<close> and
  \<^verbatim>\<open>cp.Variable(observations_number)\<close> raise \<^verbatim>\<open>ValueError\<close> on a dimension of
  zero, \<^verbatim>\<open>expected_returns.T @ w\<close> raises \<^verbatim>\<open>ValueError\<close> when the lengths
  differ, and \<^verbatim>\<open>1.0 / (observations_number * (1 - beta))\<close> is a division of Python
  floats, which raises \<^verbatim>\<open>ZeroDivisionError\<close> on a zero divisor.
\<close>

definition mean_cvar_problem ::
  "real list \<Rightarrow> real ndarray2 \<Rightarrow> weight_bounds \<Rightarrow> InvestmentType \<Rightarrow> real \<Rightarrow> error + problem" where
  "mean_cvar_problem expected_returns returns weight_bounds investment_type beta =
     (let assets_number = shape0 returns; observations_number = shape1 returns
      in if assets_number = 0 then Inl ValueError
         else if observations_number = 0 then Inl ValueError
         else if length expected_returns \<noteq> assets_number then Inl ValueError
         else if real observations_number * (1 - beta) = 0 then Inl ZeroDivisionError
         else
           (case get_lower_and_upper_bounds weight_bounds assets_number of
              Inl e \<Rightarrow> Inl e
            | Inr (lower_bounds, upper_bounds) \<Rightarrow>
                let portfolio_return = (\<lambda>x. dot expected_returns (w_value x));
                    portfolio_cvar = (\<lambda>x. alpha_value x
                        + 1 / (real observations_number * (1 - beta)) * sum_list (u_value x));
                    constraints =
                      [\<lambda>target_cvar x. portfolio_cvar x \<le> target_cvar,
                       \<lambda>target_cvar x. vec_ge_scalar
                          (vec_add (vec_add_scalar (matvec (ndarray_T returns) (w_value x))
                             (alpha_value x)) (u_value x)) 0,
                       \<lambda>target_cvar x. vec_ge_scalar (u_value x) 0,
                       \<lambda>target_cvar x. vec_ge_bounds (w_value x) lower_bounds,
                       \<lambda>target_cvar x. vec_le_bounds (w_value x) upper_bounds];
                    investment_target = get_investment_target investment_type;
                    constraints =
                      (case investment_target of
                         None \<Rightarrow> constraints
                       | Some target \<Rightarrow>
                           constraints @ [\<lambda>target_cvar x. sum_list (w_value x) = target])
                in Inr \<lparr>w_shape = assets_number, u_shape = observations_number,
                        objective = Maximize portfolio_return,
                        constraints = constraints\<rparr>))"

definition feasible :: "problem \<Rightarrow> real \<Rightarrow> assignment \<Rightarrow> bool" where
  "feasible p parameter_value x \<longleftrightarrow>
     length (w_value x) = w_shape p \<and> length (u_value x) = u_shape p
     \<and> list_all (\<lambda>c. c parameter_value x) (constraints p)"

text \<open>
  The convex solver is outside the repository: it is an argument of the model, a function
  from the problem and the value of its parameter to the optimal assignment, or
  \<open>None\<close> when the solve is infeasible, unbounded or fails.

  Modelled from the spec: the helper \<^verbatim>\<open>get_optimization_weights\<close>, not among the
  sources. Sections 4.2 and 7: each grid point is solved on its own, a point whose solve
  is infeasible or fails is dropped and not retried, the remaining weight vectors are
  returned in grid order, and the call fails with \<^verbatim>\<open>OptimizationFailed\<close> when every
  point fails.
\<close>

type_synonym solver = "problem \<Rightarrow> real \<Rightarrow> assignment option"

definition get_optimization_weights ::
  "solver \<Rightarrow> problem \<Rightarrow> real list \<Rightarrow> error + real list list" where
  "get_optimization_weights solve problem parameter_array =
     (let weights = List.map_filter (\<lambda>v. map_option w_value (solve problem v)) parameter_array
      in if weights = [] then Inl OptimizationFailed else Inr weights)"

text \<open>
  \<^verbatim>\<open>np.logspace(start, stop, num)\<close> is 10 to the power of each of the \<open>num\<close> evenly
  spaced exponents from \<open>start\<close> to \<open>stop\<close>. Its values are positive, so assigning
  them to the parameter \<^verbatim>\<open>target_cvar\<close>, declared non-negative, raises nothing.
\<close>

definition np_linspace :: "real \<Rightarrow> real \<Rightarrow> nat \<Rightarrow> real list" where
  "np_linspace start stop num =
     (if num = 1 then [start]
      else map (\<lambda>i. start + real i * ((stop - start) / real (num - 1))) [0..<num])"

definition np_logspace :: "real \<Rightarrow> real \<Rightarrow> nat \<Rightarrow> real list" where
  "np_logspace start stop num = map (\<lambda>y. 10 powr y) (np_linspace start stop num)"

definition mean_cvar ::
  "solver \<Rightarrow> real list \<Rightarrow> real ndarray2 \<Rightarrow> weight_bounds \<Rightarrow> InvestmentType \<Rightarrow> nat \<Rightarrow> real
     \<Rightarrow> error + real list list" where
  "mean_cvar solve expected_returns returns weight_bounds investment_type population_size beta =
     (case mean_cvar_problem expected_returns returns weight_bounds investment_type beta of
        Inl e \<Rightarrow> Inl e
      | Inr problem \<Rightarrow>
          get_optimization_weights solve problem
            (np_logspace (- 7 / 2) (- 1 / 2) population_size))"

section \<open>Properties of dominance\<close>

lemma dominate_loop_iff:
  "dominate_loop ne ps \<longleftrightarrow>
     list_all (\<lambda>(x, y). x \<ge> y) ps \<and> (ne \<or> list_ex (\<lambda>(x, y). x > y) ps)"
proof (induction ps arbitrary: ne)
  case Nil
  show ?case by simp
next
  case (Cons p ps)
  obtain x y where p: "p = (x, y)" by (cases p)
  show ?case
    unfolding p using Cons.IH [of True] Cons.IH [of ne] by auto
qed

lemma dominate_iff:
  "dominate a b \<longleftrightarrow>
     list_all (\<lambda>(x, y). x \<ge> y) (zip a b) \<and> list_ex (\<lambda>(x, y). x > y) (zip a b)"
  by (simp add: dominate_def dominate_loop_iff)

lemma list_all_zip_nth:
  "length a = length b \<Longrightarrow>
     list_all (\<lambda>(x, y). P x y) (zip a b) \<longleftrightarrow> (\<forall>i<length a. P (a ! i) (b ! i))"
  by (auto simp: list_all_length)

lemma list_ex_zip_nth:
  "length a = length b \<Longrightarrow>
     list_ex (\<lambda>(x, y). P x y) (zip a b) \<longleftrightarrow> (\<exists>i<length a. P (a ! i) (b ! i))"
  by (auto simp: list_ex_length)

lemma dominate_self: "\<not> dominate f f"
  by (auto simp: dominate_iff list_ex_iff in_set_zip)

lemma dominate_asym: "dominate a b \<Longrightarrow> \<not> dominate b a"
proof
  assume ab: "dominate a b" and ba: "dominate b a"
  from ab obtain p where p: "p \<in> set (zip a b)" "fst p > snd p"
    by (auto simp: dominate_iff list_ex_iff)
  then obtain i where i: "i < length a" "i < length b" "a ! i = fst p" "b ! i = snd p"
    by (auto simp: in_set_zip)
  then have "(b ! i, a ! i) \<in> set (zip b a)"
    by (auto simp: in_set_zip)
  with ba have "b ! i \<ge> a ! i"
    by (auto simp: dominate_iff list_all_iff)
  with i p show False by simp
qed

text \<open>
  C3. The dominance relation is irreflexive (no fitness vector dominates itself) and
  antisymmetric: for fitness vectors of equal length, if \<open>a\<close> dominates \<open>b\<close> then
  \<open>b\<close> does not dominate \<open>a\<close>.
\<close>

theorem dominate_irreflexive_antisymmetric:
  "\<not> dominate f f \<and> (length a = length b \<longrightarrow> dominate a b \<longrightarrow> \<not> dominate b a)"
  using dominate_self dominate_asym by blast

theorem dominate_irreflexive_antisymmetric_witness:
  "length [2, 1 :: real] = length [1, 1 :: real] \<and> dominate [2, 1] [1, 1]
     \<and> \<not> dominate [1, 1] [2, 1] \<and> \<not> dominate [3, 4] [3, 4]"
  using dominate_irreflexive_antisymmetric [of "[3, 4]" "[2, 1]" "[1, 1]"]
  by (simp add: dominate_def)

text \<open>
  C4. For fitness vectors of equal length the loop of \<^verbatim>\<open>dominate\<close> and the
  vectorised \<^verbatim>\<open>dominate_slow\<close> return the same boolean, and that boolean says:
  every component of \<open>a\<close> is at least the component of \<open>b\<close> at the same position,
  and at least one is strictly greater.
\<close>

theorem dominate_eq_dominate_slow:
  assumes "length a = length b"
  shows "dominate_slow a b = Inr (dominate a b)
     \<and> (dominate a b \<longleftrightarrow>
          (\<forall>i<length a. a ! i \<ge> b ! i) \<and> (\<exists>i<length a. a ! i > b ! i))"
proof -
  have "dominate_slow a b = Inr (dominate a b)"
    using assms by (simp add: dominate_slow_def broadcast_pairs_def dominate_iff)
  moreover have "dominate a b \<longleftrightarrow>
      (\<forall>i<length a. a ! i \<ge> b ! i) \<and> (\<exists>i<length a. a ! i > b ! i)"
    unfolding dominate_iff
    using list_all_zip_nth [OF assms, of "\<lambda>x y. x \<ge> y"]
          list_ex_zip_nth [OF assms, of "\<lambda>x y. x > y"]
    by simp
  ultimately show ?thesis by simp
qed

theorem dominate_eq_dominate_slow_witness:
  "length [2, 1 :: real] = length [1, 1 :: real]
     \<and> dominate_slow [2, 1] [1, 1] = Inr True \<and> dominate [2, 1] [1, 1]"
proof -
  have h: "length [2, 1 :: real] = length [1, 1 :: real]" by simp
  from dominate_eq_dominate_slow [OF h] have "dominate_slow [2, 1] [1, 1] = Inr (dominate [2, 1] [1, 1])"
    by blast
  then show ?thesis by (simp add: dominate_def)
qed

section \<open>Properties of the walk-forward generator\<close>

lemma date_add_Inr: "date_add d n = Inr r \<Longrightarrow> r = d + n"
  by (auto simp: date_add_def timedelta_def split: if_splits sum.splits)

lemma walk_forward_body_Yield:
  assumes "walk_forward_body a t = (Yield y, s')"
  shows "s' = After_yield t \<and> fst y = (t, t + train_duration a)
     \<and> test_start_of y = t + train_duration a
     \<and> test_end_of y \<le> t + train_duration a + test_duration a"
  using assms
  by (auto simp: walk_forward_body_def Let_def split: sum.splits if_splits dest!: date_add_Inr)

lemma walk_forward_next_Yield:
  assumes "walk_forward_next a s = (Yield y, s')"
  shows "s' = After_yield (pending_train_start a s)
     \<and> fst y = (pending_train_start a s, pending_train_start a s + train_duration a)
     \<and> test_start_of y = pending_train_start a s + train_duration a
     \<and> test_end_of y \<le> pending_train_start a s + train_duration a + test_duration a"
proof (cases s)
  case (Loop_head t)
  with assms walk_forward_body_Yield [of a t y s'] show ?thesis by simp
next
  case (After_yield t)
  with assms obtain t' where t': "date_add t (test_duration a) = Inr t'"
      and b: "walk_forward_body a t' = (Yield y, s')"
    by (auto split: sum.splits)
  from date_add_Inr [OF t'] have "t' = t + test_duration a" .
  with After_yield walk_forward_body_Yield [OF b] show ?thesis by simp
next
  case Finished
  with assms show ?thesis by simp
qed

lemma walk_forward_yields_nth:
  assumes "i < length (walk_forward_yields k a s)"
  shows "fst (walk_forward_yields k a s ! i) =
           (pending_train_start a s + int i * test_duration a,
            pending_train_start a s + int i * test_duration a + train_duration a)
     \<and> test_start_of (walk_forward_yields k a s ! i) =
           pending_train_start a s + int i * test_duration a + train_duration a
     \<and> test_end_of (walk_forward_yields k a s ! i) \<le>
           pending_train_start a s + int i * test_duration a + train_duration a
             + test_duration a"
  using assms
proof (induction k arbitrary: s i)
  case 0
  then show ?case by simp
next
  case (Suc k)
  from Suc.prems obtain y s' where n: "walk_forward_next a s = (Yield y, s')"
    by (auto split: prod.splits gen_event.splits)
  then have ys: "walk_forward_yields (Suc k) a s = y # walk_forward_yields k a s'" by simp
  note st = walk_forward_next_Yield [OF n]
  show ?case
  proof (cases i)
    case 0
    with ys st show ?thesis by simp
  next
    case (Suc j)
    with Suc.prems ys have "j < length (walk_forward_yields k a s')" by simp
    from Suc.IH [OF this] st ys Suc show ?thesis
      by (simp add: algebra_simps)
  qed
qed

text \<open>
  C10. With a training duration of at least 0 days and a test duration of at least 1
  day, every pair the generator yields has its test period start at the end of its
  training period and last at most the test duration; each next test period starts
  exactly the test duration after the one before, which is at or after the end of the
  one before; and any two test periods yielded are non-overlapping, the earlier one
  ending at or before the start of the later one.
\<close>

theorem walk_forward_test_periods:
  assumes "train_duration a \<ge> 0" and "test_duration a \<ge> 1"
  shows "(\<forall>i<length (walk_forward_yields k a (walk_forward a)).
            test_start_of (walk_forward_yields k a (walk_forward a) ! i)
              = train_end_of (walk_forward_yields k a (walk_forward a) ! i)
          \<and> test_end_of (walk_forward_yields k a (walk_forward a) ! i)
              \<le> test_start_of (walk_forward_yields k a (walk_forward a) ! i) + test_duration a)
     \<and> (\<forall>i. Suc i < length (walk_forward_yields k a (walk_forward a)) \<longrightarrow>
            test_start_of (walk_forward_yields k a (walk_forward a) ! Suc i)
              = test_start_of (walk_forward_yields k a (walk_forward a) ! i) + test_duration a
          \<and> test_end_of (walk_forward_yields k a (walk_forward a) ! i)
              \<le> test_start_of (walk_forward_yields k a (walk_forward a) ! Suc i))
     \<and> (\<forall>i j. i < j \<and> j < length (walk_forward_yields k a (walk_forward a)) \<longrightarrow>
            test_end_of (walk_forward_yields k a (walk_forward a) ! i)
              \<le> test_start_of (walk_forward_yields k a (walk_forward a) ! j))"
proof -
  let ?ys = "walk_forward_yields k a (walk_forward a)"
  let ?d = "test_duration a"
  have one: "test_start_of (?ys ! i) = train_end_of (?ys ! i)
      \<and> test_end_of (?ys ! i) \<le> test_start_of (?ys ! i) + ?d" if "i < length ?ys" for i
    using walk_forward_yields_nth [OF that] by simp
  have later: "test_end_of (?ys ! i) \<le> test_start_of (?ys ! j)"
    if "i < j" "j < length ?ys" for i j
  proof -
    from that have i: "i < length ?ys" by simp
    from that have "int i + 1 \<le> int j" by simp
    with assms(2) have "(int i + 1) * ?d \<le> int j * ?d"
      by (intro mult_right_mono) simp_all
    with walk_forward_yields_nth [OF i] walk_forward_yields_nth [OF that(2)]
    show ?thesis by (simp add: algebra_simps)
  qed
  have succ: "test_start_of (?ys ! Suc i) = test_start_of (?ys ! i) + ?d
      \<and> test_end_of (?ys ! i) \<le> test_start_of (?ys ! Suc i)" if "Suc i < length ?ys" for i
  proof -
    from that have i: "i < length ?ys" by simp
    from walk_forward_yields_nth [OF i] walk_forward_yields_nth [OF that]
    show ?thesis by (simp add: algebra_simps)
  qed
  from one succ later show ?thesis by blast
qed

theorem walk_forward_test_periods_witness:
  "train_duration \<lparr>start_date = 1, end_date = 15, train_duration = 5, test_duration = 3,
       full_period = True\<rparr> \<ge> 0
   \<and> test_duration \<lparr>start_date = 1, end_date = 15, train_duration = 5, test_duration = 3,
       full_period = True\<rparr> \<ge> 1
   \<and> walk_forward_yields 10 \<lparr>start_date = 1, end_date = 15, train_duration = 5,
         test_duration = 3, full_period = True\<rparr>
       (walk_forward \<lparr>start_date = 1, end_date = 15, train_duration = 5, test_duration = 3,
         full_period = True\<rparr>)
       = [((1, 6), (6, 9)), ((4, 9), (9, 12)), ((7, 12), (12, 15))]
   \<and> test_end_of (walk_forward_yields 10 \<lparr>start_date = 1, end_date = 15, train_duration = 5,
         test_duration = 3, full_period = True\<rparr>
       (walk_forward \<lparr>start_date = 1, end_date = 15, train_duration = 5, test_duration = 3,
         full_period = True\<rparr>) ! 0)
     \<le> test_start_of (walk_forward_yields 10 \<lparr>start_date = 1, end_date = 15,
         train_duration = 5, test_duration = 3, full_period = True\<rparr>
       (walk_forward \<lparr>start_date = 1, end_date = 15, train_duration = 5, test_duration = 3,
         full_period = True\<rparr>) ! 2)"
proof -
  let ?a = "\<lparr>start_date = 1, end_date = 15, train_duration = 5, test_duration = 3,
       full_period = True\<rparr>"
  have h1: "train_duration ?a \<ge> 0" and h2: "test_duration ?a \<ge> 1" by simp_all
  have ys: "walk_forward_yields 10 ?a (walk_forward ?a)
      = [((1, 6), (6, 9)), ((4, 9), (9, 12)), ((7, 12), (12, 15))]"
    by code_simp
  have "0 < (2::nat) \<and> 2 < length (walk_forward_yields 10 ?a (walk_forward ?a))"
    by (simp add: ys)
  with walk_forward_test_periods [OF h1 h2, of 10]
  have "test_end_of (walk_forward_yields 10 ?a (walk_forward ?a) ! 0)
      \<le> test_start_of (walk_forward_yields 10 ?a (walk_forward ?a) ! 2)"
    by blast
  with h1 h2 ys show ?thesis by blast
qed

section \<open>Properties of the random weights\<close>

text \<open>
  C9. The normalisation of \<^verbatim>\<open>rand_weights\<close> is not well defined for every
  \<open>1 \<le> n\<close> and \<open>0 \<le> zeros \<le> n\<close>: at \<open>n = 1\<close> and \<open>zeros = 1\<close> every entry is set
  to zero before the division. The draws below are possible ones, the divisor
  \<^verbatim>\<open>sum(k)\<close> is 0 and the single weight returned is not a number, where the docstring
  promises weights that sum to 1.
\<close>

theorem rand_weights_all_zeroed:
  "rand_draw 1 [1 / 2] \<and> choice_draw 1 1 [0]
     \<and> rand_weights 1 1 [1 / 2] [0] = Inr [None]"
  by (simp add: rand_draw_def choice_draw_def rand_weights_def np_divide_def)

section \<open>Properties of portfolio returns\<close>

lemma portfolio_returns_loop_Inr:
  assumes "\<forall>i\<in>set is. i < length w \<and> length (R ! i) = length acc"
  shows "portfolio_returns_loop R w is acc =
           Inr (map (\<lambda>j. acc ! j + (\<Sum>i\<leftarrow>is. w ! i * R ! i ! j)) [0..<length acc])"
  using assms
proof (induction "is" arbitrary: acc)
  case Nil
  show ?case by (simp add: map_nth)
next
  case (Cons i "is")
  let ?acc' = "map2 (+) acc (map (\<lambda>x. x * w ! i) (R ! i))"
  from Cons.prems have len: "length ?acc' = length acc" and iw: "i < length w"
    and Ri: "length (R ! i) = length acc" by simp_all
  from Cons.prems len have "\<forall>i\<in>set is. i < length w \<and> length (R ! i) = length ?acc'"
    by simp
  from Cons.IH [OF this] iw len Ri show ?case
    by (simp add: algebra_simps)
qed

lemma sum_list_upt_lessThan: "(\<Sum>i\<leftarrow>[0..<n]. f i) = (\<Sum>i<n. f i)" for f :: "nat \<Rightarrow> real"
  by (simp add: interv_sum_list_conv_sum_set_nat atLeast0LessThan)

lemma portfolio_returns_eq:
  assumes wf: "wf_ndarray2 R" and w: "length w = shape0 R"
  shows "portfolio_returns R w =
           Inr (map (\<lambda>j. \<Sum>i<shape0 R. w ! i * rows R ! i ! j) [0..<shape1 R])"
proof -
  have "\<forall>i\<in>set [0..<shape0 R].
          i < length w \<and> length (rows R ! i) = length (replicate (shape1 R) (0::real))"
    using wf w by (auto simp: wf_ndarray2_def list_all_length)
  from portfolio_returns_loop_Inr [OF this] show ?thesis
    by (simp add: portfolio_returns_def sum_list_upt_lessThan)
qed

text \<open>
  C5. For a weight vector \<open>w\<close> of length \<open>n\<close> and a return matrix \<open>R\<close> of shape
  \<open>(n, m)\<close>, \<^verbatim>\<open>portfolio_returns(R, w)\<close> returns the vector of length \<open>m\<close> whose
  entry \<open>j\<close> is the sum over \<open>i\<close> of \<open>w\<^sub>i * R[i][j]\<close>; the mean of the portfolio of
  \<open>w\<close> and \<open>R\<close> is the sample mean of that vector and its std is the sample standard
  deviation of that vector with \<^verbatim>\<open>ddof=1\<close>.
\<close>

theorem portfolio_returns_weighted_sum:
  assumes "wf_ndarray2 R" and "length w = shape0 R"
  shows "\<exists>r. portfolio_returns R w = Inr r \<and> length r = shape1 R
           \<and> (\<forall>j<shape1 R. r ! j = (\<Sum>i<shape0 R. w ! i * rows R ! i ! j))
           \<and> Portfolio_mean \<lparr>weights = w, assets_returns = R, period = d\<rparr> = np_mean r
           \<and> Portfolio_std \<lparr>weights = w, assets_returns = R, period = d\<rparr> = np_std 1 r"
  using portfolio_returns_eq [OF assms]
  by (simp add: Portfolio_mean_def Portfolio_std_def Portfolio_returns_def)

theorem portfolio_returns_weighted_sum_witness:
  "wf_ndarray2 \<lparr>shape0 = 2, shape1 = 3, rows = [[1, 2, 3], [4, 5, 6 :: real]]\<rparr>
   \<and> length [1 / 2, 1 / 2 :: real]
       = shape0 \<lparr>shape0 = 2, shape1 = 3, rows = [[1, 2, 3], [4, 5, 6 :: real]]\<rparr>
   \<and> portfolio_returns \<lparr>shape0 = 2, shape1 = 3, rows = [[1, 2, 3], [4, 5, 6]]\<rparr> [1 / 2, 1 / 2]
       = Inr [5 / 2, 7 / 2, 9 / 2]
   \<and> Portfolio_mean \<lparr>weights = [1 / 2, 1 / 2],
         assets_returns = \<lparr>shape0 = 2, shape1 = 3, rows = [[1, 2, 3], [4, 5, 6]]\<rparr>,
         period = (1, 2)\<rparr> = Some (7 / 2)
   \<and> Portfolio_std \<lparr>weights = [1 / 2, 1 / 2],
         assets_returns = \<lparr>shape0 = 2, shape1 = 3, rows = [[1, 2, 3], [4, 5, 6]]\<rparr>,
         period = (1, 2)\<rparr> = Some 1"
proof -
  let ?R = "\<lparr>shape0 = 2, shape1 = 3, rows = [[1, 2, 3], [4, 5, 6 :: real]]\<rparr>"
  let ?w = "[1 / 2, 1 / 2 :: real]"
  have h1: "wf_ndarray2 ?R" by (simp add: wf_ndarray2_def)
  have h2: "length ?w = shape0 ?R" by simp
  have r: "portfolio_returns ?R ?w = Inr [5 / 2, 7 / 2, 9 / 2]"
    by (simp add: portfolio_returns_def upt_rec numeral_eq_Suc)
  have m: "np_mean [5 / 2, 7 / 2, 9 / 2] = Some (7 / 2)"
    by (simp add: np_mean_def np_divide_def)
  have sd: "np_std 1 [5 / 2, 7 / 2, 9 / 2] = Some 1"
    by (simp add: np_std_def m np_divide_def power2_eq_square)
  from portfolio_returns_weighted_sum [OF h1 h2, of "(1, 2)"] r m sd h1 h2
  show ?thesis by auto
qed

section \<open>Properties of the multi-period portfolio\<close>

lemma MultiPeriodPortfolio_add_all_portfolios:
  "MultiPeriodPortfolio_add_all m ps = Inr m' \<Longrightarrow> portfolios m' = portfolios m @ ps"
proof (induction ps arbitrary: m)
  case Nil
  then show ?case by simp
next
  case (Cons p ps)
  from Cons.prems obtain m1 where a: "MultiPeriodPortfolio_add m p = Inr m1"
      and r: "MultiPeriodPortfolio_add_all m1 ps = Inr m'"
    by (auto split: sum.splits)
  from a have "portfolios m1 = portfolios m @ [p]"
    by (auto simp: MultiPeriodPortfolio_add_def split: if_splits)
  with Cons.IH [OF r] show ?case by simp
qed

text \<open>
  C6. When a multi-period portfolio is built by adding the sub-period portfolios
  \<open>P\<^sub>1, \<dots>, P\<^sub>k\<close> in chronological order (every call of \<^verbatim>\<open>add\<close> succeeds),
  its return series is the concatenation, in that order, of the returns of the
  \<open>P\<^sub>i\<close>, and its mean, its std with \<^verbatim>\<open>ddof=1\<close> and its downside std are the
  statistics of that concatenated series.
\<close>

theorem MultiPeriodPortfolio_concatenation:
  assumes "MultiPeriodPortfolio_add_all MultiPeriodPortfolio_init ps = Inr m"
  shows "MultiPeriodPortfolio_returns m = concat (map Portfolio_returns ps)
     \<and> MultiPeriodPortfolio_mean m = np_mean (concat (map Portfolio_returns ps))
     \<and> MultiPeriodPortfolio_std m = np_std 1 (concat (map Portfolio_returns ps))
     \<and> MultiPeriodPortfolio_downside_std m
         = downside_std (concat (map Portfolio_returns ps))"
  using MultiPeriodPortfolio_add_all_portfolios [OF assms]
  by (simp add: MultiPeriodPortfolio_returns_def MultiPeriodPortfolio_mean_def
      MultiPeriodPortfolio_std_def MultiPeriodPortfolio_downside_std_def
      MultiPeriodPortfolio_init_def)

theorem MultiPeriodPortfolio_concatenation_witness:
  "MultiPeriodPortfolio_add_all MultiPeriodPortfolio_init
       [\<lparr>weights = [1], assets_returns = \<lparr>shape0 = 1, shape1 = 1, rows = [[0]]\<rparr>,
          period = (1, 10)\<rparr>,
        \<lparr>weights = [1], assets_returns = \<lparr>shape0 = 1, shape1 = 2, rows = [[3, 3]]\<rparr>,
          period = (10, 20)\<rparr>]
     = Inr \<lparr>portfolios =
       [\<lparr>weights = [1], assets_returns = \<lparr>shape0 = 1, shape1 = 1, rows = [[0]]\<rparr>,
          period = (1, 10)\<rparr>,
        \<lparr>weights = [1], assets_returns = \<lparr>shape0 = 1, shape1 = 2, rows = [[3, 3]]\<rparr>,
          period = (10, 20)\<rparr>]\<rparr>
   \<and> MultiPeriodPortfolio_returns \<lparr>portfolios =
       [\<lparr>weights = [1], assets_returns = \<lparr>shape0 = 1, shape1 = 1, rows = [[0]]\<rparr>,
          period = (1, 10)\<rparr>,
        \<lparr>weights = [1], assets_returns = \<lparr>shape0 = 1, shape1 = 2, rows = [[3, 3]]\<rparr>,
          period = (10, 20)\<rparr>]\<rparr> = [0, 3, 3]
   \<and> MultiPeriodPortfolio_mean \<lparr>portfolios =
       [\<lparr>weights = [1], assets_returns = \<lparr>shape0 = 1, shape1 = 1, rows = [[0]]\<rparr>,
          period = (1, 10)\<rparr>,
        \<lparr>weights = [1], assets_returns = \<lparr>shape0 = 1, shape1 = 2, rows = [[3, 3]]\<rparr>,
          period = (10, 20)\<rparr>]\<rparr> = Some 2
   \<and> Portfolio_mean \<lparr>weights = [1],
         assets_returns = \<lparr>shape0 = 1, shape1 = 1, rows = [[0]]\<rparr>, period = (1, 10)\<rparr> = Some 0
   \<and> Portfolio_mean \<lparr>weights = [1],
         assets_returns = \<lparr>shape0 = 1, shape1 = 2, rows = [[3, 3]]\<rparr>, period = (10, 20)\<rparr>
       = Some 3"
proof -
  let ?P1 = "\<lparr>weights = [1], assets_returns = \<lparr>shape0 = 1, shape1 = 1, rows = [[0]]\<rparr>,
          period = (1, 10)\<rparr>"
  let ?P2 = "\<lparr>weights = [1], assets_returns = \<lparr>shape0 = 1, shape1 = 2, rows = [[3, 3]]\<rparr>,
          period = (10, 20)\<rparr>"
  have built: "MultiPeriodPortfolio_add_all MultiPeriodPortfolio_init [?P1, ?P2]
      = Inr \<lparr>portfolios = [?P1, ?P2]\<rparr>"
    by (simp add: MultiPeriodPortfolio_init_def MultiPeriodPortfolio_add_def)
  have r1: "Portfolio_returns ?P1 = [0]"
    by (simp add: Portfolio_returns_def)
  have r2: "Portfolio_returns ?P2 = [3, 3]"
    by (simp add: Portfolio_returns_def upt_rec numeral_eq_Suc)
  have m: "np_mean [0, 3, 3] = Some 2" "np_mean [0] = Some 0" "np_mean [3, 3] = Some 3"
    by (simp_all add: np_mean_def np_divide_def)
  from MultiPeriodPortfolio_concatenation [OF built] r1 r2 m built
  show ?thesis by (simp add: Portfolio_mean_def)
qed

section \<open>Properties of Assets\<close>

lemma map2_fill_Some:
  "length prev = length r \<Longrightarrow>
     map2 (\<lambda>p c. case c of None \<Rightarrow> p | Some v \<Rightarrow> Some v) prev (map Some r) = map Some r"
  by (rule nth_equalityI) simp_all

lemma ffill_rows_Some:
  "\<forall>r\<in>set P. length r = length prev \<Longrightarrow>
     ffill_rows prev (map (map Some) P) = map (map Some) P"
proof (induction P arbitrary: prev)
  case Nil
  show ?case by simp
next
  case (Cons r P)
  from Cons.prems have len: "length prev = length r" by simp
  from Cons.prems have "\<forall>r'\<in>set P. length r' = length (map Some r :: cell list)" by simp
  from Cons.IH [OF this] map2_fill_Some [OF len] show ?case
    by (simp add: Let_def)
qed

lemma cell_pct_Some:
  "cell_pct (Some a) (Some b) = (if b = 0 then None else Some (a / b - 1))"
  by (simp add: cell_pct_def np_divide_def)

lemma Assets_returns_fresh:
  assumes cache: "returns_cache a = None"
    and cells: "cells (prices a) = map (map Some) P"
    and wf: "wf_DataFrame (prices a)"
    and d: "length (index (prices a)) \<ge> 1"
  shows "shape0 (fst (Assets_returns a)) = length (columns (prices a))"
    and "shape1 (fst (Assets_returns a)) = length (index (prices a)) - 1"
    and "wf_ndarray2 (fst (Assets_returns a))"
    and "\<forall>i<length (columns (prices a)). \<forall>j<length (index (prices a)) - 1.
           rows (fst (Assets_returns a)) ! i ! j =
             (if P ! j ! i = 0 then None else Some (P ! Suc j ! i / P ! j ! i - 1))"
proof -
  let ?n = "length (columns (prices a))"
  let ?d = "length (index (prices a))"
  let ?data = "map (map Some) P :: cell list list"
  let ?pc = "map2 (map2 cell_pct) ?data (replicate ?n None # butlast ?data)"
  from wf cells have lenP: "length P = ?d" and rowsP: "\<forall>r\<in>set P. length r = ?n"
    by (auto simp: wf_DataFrame_def list_all_iff dest: arg_cong [where f = length])
  have ff: "cells (ffill (prices a)) = ?data"
    using ffill_rows_Some [of P "replicate ?n None"] rowsP by (simp add: ffill_def cells)
  have R: "fst (Assets_returns a) =
      \<lparr>shape0 = ?n, shape1 = ?d - 1,
       rows = map (\<lambda>j. map (\<lambda>r. r ! j) (drop 1 ?pc)) [0..<?n]\<rparr>"
    using cache
    by (simp add: Assets_returns_def Let_def ndarray_T_def to_numpy_def rows_from_def
        pct_change_def ff)
  have len_pc: "length (drop 1 ?pc) = ?d - 1"
    using lenP d by simp
  show "shape0 (fst (Assets_returns a)) = ?n" by (simp add: R)
  show "shape1 (fst (Assets_returns a)) = ?d - 1" by (simp add: R)
  show "wf_ndarray2 (fst (Assets_returns a))"
    using lenP d by (simp add: R wf_ndarray2_def list_all_iff)
  show "\<forall>i<?n. \<forall>j<?d - 1.
           rows (fst (Assets_returns a)) ! i ! j =
             (if P ! j ! i = 0 then None else Some (P ! Suc j ! i / P ! j ! i - 1))"
  proof (intro allI impI)
    fix i j assume i: "i < ?n" and j: "j < ?d - 1"
    from j lenP have j1: "Suc j < length P" and j0: "j < length P" by simp_all
    from rowsP j1 j0 have l1: "length (P ! Suc j) = ?n" and l0: "length (P ! j) = ?n"
      by simp_all
    have bl: "butlast ?data ! j = map Some (P ! j)"
      using j lenP j0 by (simp add: nth_butlast)
    have pcj: "?pc ! Suc j = map2 cell_pct (map Some (P ! Suc j)) (map Some (P ! j))"
      using j1 bl by simp
    have "rows (fst (Assets_returns a)) ! i ! j = ?pc ! Suc j ! i"
      using i j len_pc lenP by (simp add: R)
    also have "\<dots> = cell_pct (Some (P ! Suc j ! i)) (Some (P ! j ! i))"
      using i l1 l0 by (simp add: pcj)
    finally show "rows (fst (Assets_returns a)) ! i ! j =
             (if P ! j ! i = 0 then None else Some (P ! Suc j ! i / P ! j ! i - 1))"
      by (simp add: cell_pct_Some)
  qed
qed


lemma Assets_init_cache: "Assets_init p pre amt dmt = Inr a \<Longrightarrow> returns_cache a = None"
  by (auto simp: Assets_init_def split: sum.splits if_splits)

text \<open>
  C7. For a price table with \<open>d \<ge> 2\<close> dates, \<open>n \<ge> 1\<close> assets and no missing
  price, held by a freshly constructed \<^verbatim>\<open>Assets\<close>, \<^verbatim>\<open>returns\<close> is a well-formed
  \<open>n\<close> by \<open>d - 1\<close> matrix whose entry \<open>[i][j]\<close> is the simple return
  \<open>prices[j+1][i] / prices[j][i] - 1\<close> (no finite number when the earlier price is 0),
  and \<^verbatim>\<open>asset_nb\<close> is \<open>n\<close> and \<^verbatim>\<open>date_nb\<close> is \<open>d - 1\<close>.
\<close>

theorem Assets_returns_simple_returns:
  assumes "Assets_init p pre amt dmt = Inr a"
    and "wf_DataFrame (prices a)"
    and "cells (prices a) = map (map Some) P"
    and "length (index (prices a)) \<ge> 2"
    and "length (columns (prices a)) \<ge> 1"
  shows "wf_ndarray2 (fst (Assets_returns a))
     \<and> shape0 (fst (Assets_returns a)) = length (columns (prices a))
     \<and> shape1 (fst (Assets_returns a)) = length (index (prices a)) - 1
     \<and> (\<forall>i<length (columns (prices a)). \<forall>j<length (index (prices a)) - 1.
           rows (fst (Assets_returns a)) ! i ! j =
             (if P ! j ! i = 0 then None else Some (P ! Suc j ! i / P ! j ! i - 1)))
     \<and> fst (Assets_asset_nb a) = length (columns (prices a))
     \<and> fst (Assets_date_nb a) = length (index (prices a)) - 1"
proof -
  from assms(4) have d: "length (index (prices a)) \<ge> 1" by simp
  note r = Assets_returns_fresh [OF Assets_init_cache [OF assms(1)] assms(3) assms(2) d]
  have "fst (Assets_asset_nb a) = shape0 (fst (Assets_returns a))"
    by (simp add: Assets_asset_nb_def split: prod.splits)
  moreover have "fst (Assets_date_nb a) = shape1 (fst (Assets_returns a))"
    by (simp add: Assets_date_nb_def split: prod.splits)
  ultimately show ?thesis using r by simp
qed

theorem Assets_returns_simple_returns_witness:
  "Assets_init \<lparr>index_type = DatetimeIndex, index = [1, 2, 3], columns = [''a'', ''b''],
       cells = [[Some 1, Some 2], [Some 2, Some 1], [Some 4, Some 5]]\<rparr>
     True (Some (1 / 10)) (Some (1 / 10))
     = Inr \<lparr>prices = \<lparr>index_type = DatetimeIndex, index = [1, 2, 3], columns = [''a'', ''b''],
         cells = [[Some 1, Some 2], [Some 2, Some 1], [Some 4, Some 5]]\<rparr>,
       returns_cache = None\<rparr>
   \<and> rows (fst (Assets_returns
       \<lparr>prices = \<lparr>index_type = DatetimeIndex, index = [1, 2, 3], columns = [''a'', ''b''],
         cells = [[Some 1, Some 2], [Some 2, Some 1], [Some 4, Some 5]]\<rparr>,
       returns_cache = None\<rparr>)) ! 1 ! 0 = Some (- (1 / 2))
   \<and> fst (Assets_asset_nb
       \<lparr>prices = \<lparr>index_type = DatetimeIndex, index = [1, 2, 3], columns = [''a'', ''b''],
         cells = [[Some 1, Some 2], [Some 2, Some 1], [Some 4, Some 5]]\<rparr>,
       returns_cache = None\<rparr>) = 2
   \<and> fst (Assets_date_nb
       \<lparr>prices = \<lparr>index_type = DatetimeIndex, index = [1, 2, 3], columns = [''a'', ''b''],
         cells = [[Some 1, Some 2], [Some 2, Some 1], [Some 4, Some 5]]\<rparr>,
       returns_cache = None\<rparr>) = 2"
proof -
  let ?p = "\<lparr>index_type = DatetimeIndex, index = [1, 2, 3], columns = [''a'', ''b''],
       cells = [[Some 1, Some 2], [Some 2, Some 1], [Some 4, Some 5]]\<rparr>"
  let ?a = "\<lparr>prices = ?p, returns_cache = None\<rparr>"
  let ?P = "[[1, 2], [2, 1], [4, 5 :: real]]"
  have ff: "ffill_rows [None, None] [[Some 1, Some 2], [Some 2, Some 1], [Some 4, Some 5]]
      = [[Some 1, Some 2], [Some 2, Some 1], [Some 4, Some 5]]"
    by simp
  have init: "Assets_init ?p True (Some (1 / 10)) (Some (1 / 10)) = Inr ?a"
    by (simp add: Assets_init_def Assets_prices_check_def DataFrame_empty_def
        Assets_preprocessing_def count_nan_axis0_def
        count_nan_axis1_def ffill_def bfill_def upt_rec numeral_eq_Suc)
  have wf: "wf_DataFrame (prices ?a)" by (simp add: wf_DataFrame_def)
  have c: "cells (prices ?a) = map (map Some) ?P" by simp
  have d: "length (index (prices ?a)) \<ge> 2" and n: "length (columns (prices ?a)) \<ge> 1"
    by simp_all
  from Assets_returns_simple_returns [OF init wf c d n]
  have "rows (fst (Assets_returns ?a)) ! 1 ! 0 = Some (- (1 / 2))"
    and "fst (Assets_asset_nb ?a) = 2" and "fst (Assets_date_nb ?a) = 2"
    by simp_all
  with init show ?thesis by simp
qed

lemma Assets_preprocessing_raises:
  "(\<exists>e. Assets_preprocessing df (Some x) (Some y) = Inl e)
     \<longleftrightarrow> \<not> (0 < x \<and> x < 1) \<or> \<not> (0 < y \<and> y < 1)"
  by (auto simp: Assets_preprocessing_def Let_def)

lemma Assets_preprocessing_error:
  "Assets_preprocessing df (Some x) (Some y) = Inl e \<Longrightarrow> e = ValueError"
  by (auto simp: Assets_preprocessing_def Let_def split: if_splits)

text \<open>
  C8. The validation of \<^verbatim>\<open>_preprocessing\<close> raises if and only if
  \<^verbatim>\<open>asset_missing_threshold\<close> or \<^verbatim>\<open>dates_missing_threshold\<close> is not strictly
  between 0 and 1, and what it raises is \<^verbatim>\<open>ValueError\<close>: nothing is clamped, and for
  thresholds strictly inside the interval nothing is raised. So constructing
  \<^verbatim>\<open>Assets\<close> with preprocessing enabled raises whenever a threshold is outside the
  interval, and on a table that passes the price check it raises exactly then.
\<close>

theorem Assets_threshold_validation:
  "((\<exists>e. Assets_preprocessing df (Some x) (Some y) = Inl e)
       \<longleftrightarrow> \<not> (0 < x \<and> x < 1) \<or> \<not> (0 < y \<and> y < 1))
   \<and> (\<forall>e. Assets_preprocessing df (Some x) (Some y) = Inl e \<longrightarrow> e = ValueError)
   \<and> (\<not> (0 < x \<and> x < 1) \<or> \<not> (0 < y \<and> y < 1) \<longrightarrow>
        (\<exists>e. Assets_init df True (Some x) (Some y) = Inl e))
   \<and> (Assets_prices_check df = Inr () \<longrightarrow>
        ((\<exists>e. Assets_init df True (Some x) (Some y) = Inl e)
           \<longleftrightarrow> \<not> (0 < x \<and> x < 1) \<or> \<not> (0 < y \<and> y < 1)))"
proof -
  have checked: "(\<exists>e. Assets_init df True (Some x) (Some y) = Inl e)
      \<longleftrightarrow> (\<exists>e. Assets_preprocessing df (Some x) (Some y) = Inl e)"
    if "Assets_prices_check df = Inr ()"
    using that by (auto simp: Assets_init_def split: sum.splits)
  have anyway: "\<exists>e. Assets_init df True (Some x) (Some y) = Inl e"
    if "\<exists>e. Assets_preprocessing df (Some x) (Some y) = Inl e"
    using that by (auto simp: Assets_init_def split: sum.splits)
  from checked anyway
    Assets_preprocessing_raises [of df x y] Assets_preprocessing_error [of df x y]
  show ?thesis by blast
qed

theorem Assets_threshold_validation_witness:
  "Assets_prices_check \<lparr>index_type = DatetimeIndex, index = [1, 2], columns = [''a''],
       cells = [[Some 1], [Some 2]]\<rparr> = Inr ()
   \<and> (\<exists>e. Assets_init \<lparr>index_type = DatetimeIndex, index = [1, 2], columns = [''a''],
       cells = [[Some 1], [Some 2]]\<rparr> True (Some 1) (Some (1 / 10)) = Inl e)
   \<and> \<not> (\<exists>e. Assets_init \<lparr>index_type = DatetimeIndex, index = [1, 2], columns = [''a''],
       cells = [[Some 1], [Some 2]]\<rparr> True (Some (1 / 10)) (Some (1 / 10)) = Inl e)"
proof -
  let ?p = "\<lparr>index_type = DatetimeIndex, index = [1, 2], columns = [''a''],
       cells = [[Some 1], [Some 2]]\<rparr>"
  have c: "Assets_prices_check ?p = Inr ()"
    by (simp add: Assets_prices_check_def DataFrame_empty_def)
  from Assets_threshold_validation [of ?p 1 "1 / 10"] c
  have 1: "\<exists>e. Assets_init ?p True (Some 1) (Some (1 / 10)) = Inl e" by simp
  from Assets_threshold_validation [of ?p "1 / 10" "1 / 10"] c
  have 2: "\<not> (\<exists>e. Assets_init ?p True (Some (1 / 10)) (Some (1 / 10)) = Inl e)" by simp
  from c 1 2 show ?thesis by blast
qed

section \<open>Properties of the mean-CVaR optimisation\<close>

lemma dot_sum: "length xs = length ys \<Longrightarrow> dot xs ys = (\<Sum>i<length xs. xs ! i * ys ! i)"
proof -
  assume l: "length xs = length ys"
  have "map2 (*) xs ys = map (\<lambda>i. xs ! i * ys ! i) [0..<length xs]"
    using l by (intro nth_equalityI) simp_all
  then show ?thesis
    by (simp add: dot_def sum_list_upt_lessThan)
qed

lemma sum_list_sum_nth': "sum_list xs = (\<Sum>i<length xs. xs ! i)" for xs :: "real list"
  by (simp add: sum_list_sum_nth atLeast0LessThan)

lemma returns_T_w:
  assumes wf: "wf_ndarray2 R" and w: "length w = shape0 R" and t: "t < shape1 R"
  shows "matvec (ndarray_T R) w ! t = (\<Sum>i<shape0 R. rows R ! i ! t * w ! i)"
proof -
  from wf have len: "length (rows R) = shape0 R" by (simp add: wf_ndarray2_def)
  have "matvec (ndarray_T R) w ! t = dot (map (\<lambda>r. r ! t) (rows R)) w"
    using t by (simp add: matvec_def ndarray_T_def)
  also have "\<dots> = (\<Sum>i<shape0 R. rows R ! i ! t * w ! i)"
    using dot_sum [of "map (\<lambda>r. r ! t) (rows R)" w] len w by simp
  finally show ?thesis .
qed


lemma constraint_returns_iff:
  assumes wf: "wf_ndarray2 R" and w: "length w = shape0 R" and u: "length u = shape1 R"
  shows "vec_ge_scalar (vec_add (vec_add_scalar (matvec (ndarray_T R) w) a) u) 0
     \<longleftrightarrow> (\<forall>t<shape1 R. 0 \<le> (\<Sum>i<shape0 R. rows R ! i ! t * w ! i) + a + u ! t)"
proof -
  have len: "length (matvec (ndarray_T R) w) = shape1 R"
    by (simp add: matvec_def ndarray_T_def)
  have "vec_ge_scalar (vec_add (vec_add_scalar (matvec (ndarray_T R) w) a) u) 0
      \<longleftrightarrow> (\<forall>t<shape1 R. 0 \<le> matvec (ndarray_T R) w ! t + a + u ! t)"
    using len u by (simp add: vec_ge_scalar_def vec_add_def vec_add_scalar_def list_all_length)
  also have "\<dots> \<longleftrightarrow> (\<forall>t<shape1 R. 0 \<le> (\<Sum>i<shape0 R. rows R ! i ! t * w ! i) + a + u ! t)"
    using returns_T_w [OF wf w] by simp
  finally show ?thesis .
qed

lemma vec_ge_bounds_iff:
  "length xs = length lower \<Longrightarrow>
     vec_ge_bounds xs lower \<longleftrightarrow> (\<forall>i<length xs. \<forall>b. lower ! i = Some b \<longrightarrow> b \<le> xs ! i)"
  by (auto simp: vec_ge_bounds_def list_all_length split: option.splits)

lemma vec_le_bounds_iff:
  "length xs = length upper \<Longrightarrow>
     vec_le_bounds xs upper \<longleftrightarrow> (\<forall>i<length xs. \<forall>b. upper ! i = Some b \<longrightarrow> xs ! i \<le> b)"
  by (auto simp: vec_le_bounds_def list_all_length split: option.splits)

lemma get_lower_and_upper_bounds_length:
  "get_lower_and_upper_bounds wb n = Inr (lo, up) \<Longrightarrow> length lo = n \<and> length up = n"
  by (auto simp: get_lower_and_upper_bounds_def Let_def split: if_splits weight_bounds.splits)

lemma mean_cvar_problem_fully_invested:
  assumes mu: "length mu = shape0 R" and T: "shape1 R \<ge> 1" and beta: "beta \<noteq> 1"
    and b: "get_lower_and_upper_bounds wb (shape0 R) = Inr (lo, up)"
    and n: "shape0 R \<ge> 1"
  shows "mean_cvar_problem mu R wb FULLY_INVESTED beta =
     Inr \<lparr>w_shape = shape0 R, u_shape = shape1 R,
          objective = Maximize (\<lambda>x. dot mu (w_value x)),
          constraints =
            [\<lambda>target_cvar x. alpha_value x
                 + 1 / (real (shape1 R) * (1 - beta)) * sum_list (u_value x) \<le> target_cvar,
             \<lambda>target_cvar x. vec_ge_scalar
                (vec_add (vec_add_scalar (matvec (ndarray_T R) (w_value x)) (alpha_value x))
                   (u_value x)) 0,
             \<lambda>target_cvar x. vec_ge_scalar (u_value x) 0,
             \<lambda>target_cvar x. vec_ge_bounds (w_value x) lo,
             \<lambda>target_cvar x. vec_le_bounds (w_value x) up,
             \<lambda>target_cvar x. sum_list (w_value x) = 1]\<rparr>"
  using assms by (simp add: mean_cvar_problem_def Let_def)

lemma mean_cvar_problem_empty_dimension:
  "shape0 R = 0 \<or> shape1 R = 0 \<Longrightarrow> mean_cvar_problem mu R wb it beta = Inl ValueError"
  by (auto simp: mean_cvar_problem_def Let_def)

lemma slack_iff_max: "0 \<le> u \<and> 0 \<le> r + a + u \<longleftrightarrow> max 0 (- (r + a)) \<le> u" for u r a :: real
  by auto

lemma slack_all_iff:
  "(\<forall>t<T. 0 \<le> u t) \<and> (\<forall>t<T. 0 \<le> r t + a + u t)
     \<longleftrightarrow> (\<forall>t<T. max 0 (- (r t + a)) \<le> u t)" for u r :: "nat \<Rightarrow> real"
  using slack_iff_max by blast

text \<open>
  C1. For a return matrix \<open>R\<close> of shape (assets, observations) with at least one
  asset and one observation, an expected-return vector \<open>mu\<close> with one entry per asset, weight bounds
  \<open>lower\<close> and \<open>upper\<close>, the investment type \<^verbatim>\<open>FULLY_INVESTED\<close> and a confidence
  \<open>beta\<close> other than 1, \<^verbatim>\<open>mean_cvar\<close> builds the Rockafellar-Uryasev program: it
  maximises \<open>mu . w\<close>, and an assignment of \<open>(w, alpha, u)\<close> is feasible at a target
  exactly when \<open>u \<ge> 0\<close> and \<open>R\<^sup>T w + alpha + u \<ge> 0\<close> in every observation, the
  expression \<open>alpha + (1 / (T (1 - beta))) sum(u)\<close> is at most the target, every weight
  lies within its bounds and the weights sum to 1. The two constraints on \<open>u\<close> say the
  same as: each \<open>u\<^sub>t\<close> is at least \<open>max(0, - (r\<^sub>t . w + alpha))\<close>.
\<close>

theorem mean_cvar_rockafellar_uryasev:
  assumes "wf_ndarray2 R" and "length mu = shape0 R" and "shape1 R \<ge> 1" and "beta \<noteq> 1"
    and "get_lower_and_upper_bounds wb (shape0 R) = Inr (lo, up)"
    and "shape0 R \<ge> 1"
  shows "\<exists>p f. mean_cvar_problem mu R wb FULLY_INVESTED beta = Inr p
     \<and> objective p = Maximize f
     \<and> (\<forall>x. length (w_value x) = shape0 R \<longrightarrow>
            f x = (\<Sum>i<shape0 R. mu ! i * w_value x ! i))
     \<and> (\<forall>target_cvar x. feasible p target_cvar x \<longleftrightarrow>
            length (w_value x) = shape0 R \<and> length (u_value x) = shape1 R
            \<and> (\<forall>t<shape1 R. 0 \<le> u_value x ! t)
            \<and> (\<forall>t<shape1 R.
                  0 \<le> (\<Sum>i<shape0 R. rows R ! i ! t * w_value x ! i) + alpha_value x
                       + u_value x ! t)
            \<and> alpha_value x
                 + 1 / (real (shape1 R) * (1 - beta)) * (\<Sum>t<shape1 R. u_value x ! t)
                 \<le> target_cvar
            \<and> (\<forall>i<shape0 R. (\<forall>b. lo ! i = Some b \<longrightarrow> b \<le> w_value x ! i)
                  \<and> (\<forall>b. up ! i = Some b \<longrightarrow> w_value x ! i \<le> b))
            \<and> (\<Sum>i<shape0 R. w_value x ! i) = 1)
     \<and> (\<forall>target_cvar x. feasible p target_cvar x \<longleftrightarrow>
            length (w_value x) = shape0 R \<and> length (u_value x) = shape1 R
            \<and> (\<forall>t<shape1 R.
                  max 0 (- ((\<Sum>i<shape0 R. rows R ! i ! t * w_value x ! i) + alpha_value x))
                    \<le> u_value x ! t)
            \<and> alpha_value x
                 + 1 / (real (shape1 R) * (1 - beta)) * (\<Sum>t<shape1 R. u_value x ! t)
                 \<le> target_cvar
            \<and> (\<forall>i<shape0 R. (\<forall>b. lo ! i = Some b \<longrightarrow> b \<le> w_value x ! i)
                  \<and> (\<forall>b. up ! i = Some b \<longrightarrow> w_value x ! i \<le> b))
            \<and> (\<Sum>i<shape0 R. w_value x ! i) = 1)"
proof -
  let ?n = "shape0 R" and ?T = "shape1 R"
  let ?f = "\<lambda>x. dot mu (w_value x)"
  let ?p = "\<lparr>w_shape = ?n, u_shape = ?T, objective = Maximize ?f,
          constraints =
            [\<lambda>target_cvar x. alpha_value x
                 + 1 / (real ?T * (1 - beta)) * sum_list (u_value x) \<le> target_cvar,
             \<lambda>target_cvar x. vec_ge_scalar
                (vec_add (vec_add_scalar (matvec (ndarray_T R) (w_value x)) (alpha_value x))
                   (u_value x)) 0,
             \<lambda>target_cvar x. vec_ge_scalar (u_value x) 0,
             \<lambda>target_cvar x. vec_ge_bounds (w_value x) lo,
             \<lambda>target_cvar x. vec_le_bounds (w_value x) up,
             \<lambda>target_cvar x. sum_list (w_value x) = 1]\<rparr>"
  note built = mean_cvar_problem_fully_invested [OF assms(2-6)]
  from get_lower_and_upper_bounds_length [OF assms(5)]
  have lo: "length lo = ?n" and up: "length up = ?n" by simp_all
  have obj: "?f x = (\<Sum>i<?n. mu ! i * w_value x ! i)" if "length (w_value x) = ?n" for x
    using dot_sum [of mu "w_value x"] that assms(2) by simp
  have feas: "feasible ?p c x \<longleftrightarrow>
            length (w_value x) = ?n \<and> length (u_value x) = ?T
            \<and> (\<forall>t<?T. 0 \<le> u_value x ! t)
            \<and> (\<forall>t<?T. 0 \<le> (\<Sum>i<?n. rows R ! i ! t * w_value x ! i) + alpha_value x
                       + u_value x ! t)
            \<and> alpha_value x + 1 / (real ?T * (1 - beta)) * (\<Sum>t<?T. u_value x ! t) \<le> c
            \<and> (\<forall>i<?n. (\<forall>b. lo ! i = Some b \<longrightarrow> b \<le> w_value x ! i)
                  \<and> (\<forall>b. up ! i = Some b \<longrightarrow> w_value x ! i \<le> b))
            \<and> (\<Sum>i<?n. w_value x ! i) = 1" for c x
  proof (cases "length (w_value x) = ?n \<and> length (u_value x) = ?T")
    case False
    then show ?thesis by (auto simp: feasible_def)
  next
    case True
    then have w: "length (w_value x) = ?n" and u: "length (u_value x) = ?T" by simp_all
    have c2: "vec_ge_scalar (u_value x) 0 \<longleftrightarrow> (\<forall>t<?T. 0 \<le> u_value x ! t)"
      using u by (simp add: vec_ge_scalar_def list_all_length)
    have s1: "sum_list (u_value x) = (\<Sum>t<?T. u_value x ! t)"
      using sum_list_sum_nth' [of "u_value x"] u by simp
    have s2: "sum_list (w_value x) = (\<Sum>i<?n. w_value x ! i)"
      using sum_list_sum_nth' [of "w_value x"] w by simp
    have b1: "vec_ge_bounds (w_value x) lo
        \<longleftrightarrow> (\<forall>i<?n. \<forall>b. lo ! i = Some b \<longrightarrow> b \<le> w_value x ! i)"
      using vec_ge_bounds_iff [of "w_value x" lo] w lo by simp
    have b2: "vec_le_bounds (w_value x) up
        \<longleftrightarrow> (\<forall>i<?n. \<forall>b. up ! i = Some b \<longrightarrow> w_value x ! i \<le> b)"
      using vec_le_bounds_iff [of "w_value x" up] w up by simp
    have "feasible ?p c x \<longleftrightarrow>
        alpha_value x + 1 / (real ?T * (1 - beta)) * sum_list (u_value x) \<le> c
        \<and> vec_ge_scalar
            (vec_add (vec_add_scalar (matvec (ndarray_T R) (w_value x)) (alpha_value x))
               (u_value x)) 0
        \<and> vec_ge_scalar (u_value x) 0
        \<and> vec_ge_bounds (w_value x) lo \<and> vec_le_bounds (w_value x) up
        \<and> sum_list (w_value x) = 1"
      using w u by (simp add: feasible_def)
    also have "\<dots> \<longleftrightarrow>
        alpha_value x + 1 / (real ?T * (1 - beta)) * (\<Sum>t<?T. u_value x ! t) \<le> c
        \<and> (\<forall>t<?T. 0 \<le> (\<Sum>i<?n. rows R ! i ! t * w_value x ! i) + alpha_value x
                       + u_value x ! t)
        \<and> (\<forall>t<?T. 0 \<le> u_value x ! t)
        \<and> (\<forall>i<?n. \<forall>b. lo ! i = Some b \<longrightarrow> b \<le> w_value x ! i)
        \<and> (\<forall>i<?n. \<forall>b. up ! i = Some b \<longrightarrow> w_value x ! i \<le> b)
        \<and> (\<Sum>i<?n. w_value x ! i) = 1"
      unfolding constraint_returns_iff [OF assms(1) w u] c2 s1 s2 b1 b2 ..
    finally show ?thesis using w u by blast
  qed
  have slack: "feasible ?p c x \<longleftrightarrow>
            length (w_value x) = ?n \<and> length (u_value x) = ?T
            \<and> (\<forall>t<?T. max 0 (- ((\<Sum>i<?n. rows R ! i ! t * w_value x ! i) + alpha_value x))
                    \<le> u_value x ! t)
            \<and> alpha_value x + 1 / (real ?T * (1 - beta)) * (\<Sum>t<?T. u_value x ! t) \<le> c
            \<and> (\<forall>i<?n. (\<forall>b. lo ! i = Some b \<longrightarrow> b \<le> w_value x ! i)
                  \<and> (\<forall>b. up ! i = Some b \<longrightarrow> w_value x ! i \<le> b))
            \<and> (\<Sum>i<?n. w_value x ! i) = 1" for c x
    using feas [of c x]
      slack_all_iff [of ?T "\<lambda>t. u_value x ! t"
        "\<lambda>t. \<Sum>i<?n. rows R ! i ! t * w_value x ! i" "alpha_value x"]
    by blast
  show ?thesis
    apply (rule exI [of _ ?p])
    apply (rule exI [of _ ?f])
    apply (intro conjI allI impI)
        apply (rule built)
       apply simp
      apply (erule obj)
     apply (rule feas)
    apply (rule slack)
    done
qed


theorem mean_cvar_rockafellar_uryasev_witness:
  "wf_ndarray2 \<lparr>shape0 = 1, shape1 = 1, rows = [[1 / 10 :: real]]\<rparr>
   \<and> length [1 / 20 :: real] = shape0 \<lparr>shape0 = 1, shape1 = 1, rows = [[1 / 10 :: real]]\<rparr>
   \<and> shape1 \<lparr>shape0 = 1, shape1 = 1, rows = [[1 / 10 :: real]]\<rparr> \<ge> 1
   \<and> (19 / 20 :: real) \<noteq> 1
   \<and> get_lower_and_upper_bounds (Bounds_pair (Some 0) None)
        (shape0 \<lparr>shape0 = 1, shape1 = 1, rows = [[1 / 10 :: real]]\<rparr>) = Inr ([Some 0], [None])
   \<and> shape0 \<lparr>shape0 = 1, shape1 = 1, rows = [[1 / 10 :: real]]\<rparr> \<ge> 1
   \<and> (\<exists>p. mean_cvar_problem [1 / 20] \<lparr>shape0 = 1, shape1 = 1, rows = [[1 / 10]]\<rparr>
             (Bounds_pair (Some 0) None) FULLY_INVESTED (19 / 20) = Inr p
          \<and> feasible p 1 \<lparr>w_value = [1], alpha_value = 0, u_value = [0]\<rparr>
          \<and> \<not> feasible p 1 \<lparr>w_value = [1], alpha_value = - 1, u_value = [0]\<rparr>)"
proof -
  let ?R = "\<lparr>shape0 = 1, shape1 = 1, rows = [[1 / 10 :: real]]\<rparr>"
  have h1: "wf_ndarray2 ?R" by (simp add: wf_ndarray2_def)
  have h2: "length [1 / 20 :: real] = shape0 ?R" by simp
  have h3: "shape1 ?R \<ge> 1" by simp
  have h4: "(19 / 20 :: real) \<noteq> 1" by simp
  have h5: "get_lower_and_upper_bounds (Bounds_pair (Some 0) None) (shape0 ?R)
      = Inr ([Some 0], [None])"
    by (simp add: get_lower_and_upper_bounds_def)
  have h6: "shape0 ?R \<ge> 1" by simp
  from mean_cvar_rockafellar_uryasev [OF h1 h2 h3 h4 h5 h6]
  obtain p where p: "mean_cvar_problem [1 / 20] ?R (Bounds_pair (Some 0) None)
        FULLY_INVESTED (19 / 20) = Inr p"
    and f: "\<And>c x. feasible p c x \<longleftrightarrow>
            length (w_value x) = shape0 ?R \<and> length (u_value x) = shape1 ?R
            \<and> (\<forall>t<shape1 ?R. 0 \<le> u_value x ! t)
            \<and> (\<forall>t<shape1 ?R.
                  0 \<le> (\<Sum>i<shape0 ?R. rows ?R ! i ! t * w_value x ! i) + alpha_value x
                       + u_value x ! t)
            \<and> alpha_value x
                 + 1 / (real (shape1 ?R) * (1 - 19 / 20)) * (\<Sum>t<shape1 ?R. u_value x ! t)
                 \<le> c
            \<and> (\<forall>i<shape0 ?R. (\<forall>b. [Some 0] ! i = Some b \<longrightarrow> b \<le> w_value x ! i)
                  \<and> (\<forall>b. [None] ! i = Some b \<longrightarrow> w_value x ! i \<le> b))
            \<and> (\<Sum>i<shape0 ?R. w_value x ! i) = 1"
    by blast
  have "feasible p 1 \<lparr>w_value = [1], alpha_value = 0, u_value = [0]\<rparr>"
    by (simp add: f)
  moreover have "\<not> feasible p 1 \<lparr>w_value = [1], alpha_value = - 1, u_value = [0]\<rparr>"
    by (simp add: f)
  ultimately show ?thesis using h1 h2 h3 h4 h5 h6 p by blast
qed

lemma mean_cvar_problem_w_shape:
  "mean_cvar_problem mu R wb it beta = Inr p \<Longrightarrow> w_shape p = shape0 R"
  by (auto simp: mean_cvar_problem_def Let_def split: if_splits sum.splits prod.splits)

lemma map_filter_empty_iff: "List.map_filter f xs = [] \<longleftrightarrow> (\<forall>x\<in>set xs. f x = None)"
  by (auto simp: List.map_filter_def filter_empty_conv)

lemma length_map_filter_le: "length (List.map_filter f xs) \<le> length xs"
  by (simp add: List.map_filter_def)

lemma set_map_filter: "y \<in> set (List.map_filter f xs) \<longleftrightarrow> (\<exists>x\<in>set xs. f x = Some y)"
  by (auto simp: List.map_filter_def image_iff)

lemma np_logspace_length: "length (np_logspace a b n) = n"
  by (simp add: np_logspace_def np_linspace_def)

lemma np_logspace_pos: "\<forall>v\<in>set (np_logspace a b n). 0 < v"
  by (simp add: np_logspace_def)

lemma np_logspace_nth:
  "i < n \<Longrightarrow> np_logspace a b n ! i = 10 powr (a + real i * ((b - a) / real (n - 1)))"
  by (auto simp: np_logspace_def np_linspace_def)

text \<open>
  C2. For a population size \<open>N \<ge> 1\<close>, \<^verbatim>\<open>mean_cvar\<close> solves the problem at the \<open>N\<close>
  target values \<open>10\<close> to the power \<open>-3.5 + 3 i / (N - 1)\<close>, a logarithmic grid between
  the fixed exponents \<open>-3.5\<close> and \<open>-0.5\<close>. It fails exactly when the solve fails at
  every grid point, and then with \<^verbatim>\<open>OptimizationFailed\<close>. Otherwise it returns, in
  grid order, the weights of the grid points whose solve succeeded: at most \<open>N\<close> weight
  vectors, each with one entry per asset.
\<close>

theorem mean_cvar_frontier_sweep:
  assumes "mean_cvar_problem mu R wb it beta = Inr p"
    and "population_size \<ge> 1"
    and "\<forall>v x. solve p v = Some x \<longrightarrow> length (w_value x) = w_shape p"
  shows "length (np_logspace (- 7 / 2) (- 1 / 2) population_size) = population_size
     \<and> (\<forall>i<population_size.
          np_logspace (- 7 / 2) (- 1 / 2) population_size ! i
            = 10 powr (- 7 / 2 + real i * (3 / real (population_size - 1))))
     \<and> ((\<exists>e. mean_cvar solve mu R wb it population_size beta = Inl e)
          \<longleftrightarrow> (\<forall>v\<in>set (np_logspace (- 7 / 2) (- 1 / 2) population_size). solve p v = None))
     \<and> (\<forall>e. mean_cvar solve mu R wb it population_size beta = Inl e
          \<longrightarrow> e = OptimizationFailed)
     \<and> (\<forall>ws. mean_cvar solve mu R wb it population_size beta = Inr ws \<longrightarrow>
          ws = List.map_filter (\<lambda>v. map_option w_value (solve p v))
                 (np_logspace (- 7 / 2) (- 1 / 2) population_size)
          \<and> length ws \<le> population_size
          \<and> (\<forall>w\<in>set ws. length w = shape0 R))"
proof -
  let ?grid = "np_logspace (- 7 / 2) (- 1 / 2) population_size"
  let ?kept = "List.map_filter (\<lambda>v. map_option w_value (solve p v)) ?grid"
  have mc: "mean_cvar solve mu R wb it population_size beta
      = (if ?kept = [] then Inl OptimizationFailed else Inr ?kept)"
    using assms(1) by (simp add: mean_cvar_def get_optimization_weights_def Let_def)
  have grid: "\<forall>i<population_size.
      ?grid ! i = 10 powr (- 7 / 2 + real i * (3 / real (population_size - 1)))"
    using np_logspace_nth [of _ population_size "- 7 / 2" "- 1 / 2"] by simp
  have fail: "?kept = [] \<longleftrightarrow> (\<forall>v\<in>set ?grid. solve p v = None)"
    by (simp add: map_filter_empty_iff)
  have len: "length ?kept \<le> population_size"
    using length_map_filter_le [of _ ?grid] by (simp add: np_logspace_length)
  have shape: "\<forall>w\<in>set ?kept. length w = shape0 R"
    using assms(3) mean_cvar_problem_w_shape [OF assms(1)]
    by (auto simp: set_map_filter)
  show ?thesis
    using grid fail len shape by (auto simp: mc np_logspace_length)
qed

theorem mean_cvar_frontier_sweep_witness:
  "mean_cvar_problem [1 / 20] \<lparr>shape0 = 1, shape1 = 1, rows = [[1 / 10]]\<rparr>
       (Bounds_pair (Some 0) None) FULLY_INVESTED (19 / 20)
     = Inr \<lparr>w_shape = 1, u_shape = 1,
          objective = Maximize (\<lambda>x. dot [1 / 20] (w_value x)),
          constraints =
            [\<lambda>target_cvar x. alpha_value x
                 + 1 / (real 1 * (1 - 19 / 20)) * sum_list (u_value x) \<le> target_cvar,
             \<lambda>target_cvar x. vec_ge_scalar
                (vec_add (vec_add_scalar
                   (matvec (ndarray_T \<lparr>shape0 = 1, shape1 = 1, rows = [[1 / 10]]\<rparr>) (w_value x))
                   (alpha_value x)) (u_value x)) 0,
             \<lambda>target_cvar x. vec_ge_scalar (u_value x) 0,
             \<lambda>target_cvar x. vec_ge_bounds (w_value x) [Some 0],
             \<lambda>target_cvar x. vec_le_bounds (w_value x) [None],
             \<lambda>target_cvar x. sum_list (w_value x) = 1]\<rparr>
   \<and> (1::nat) \<ge> 1
   \<and> mean_cvar (\<lambda>p v. Some \<lparr>w_value = [1], alpha_value = 0, u_value = [0]\<rparr>)
        [1 / 20] \<lparr>shape0 = 1, shape1 = 1, rows = [[1 / 10]]\<rparr>
        (Bounds_pair (Some 0) None) FULLY_INVESTED 1 (19 / 20) = Inr [[1]]
   \<and> mean_cvar (\<lambda>p v. None)
        [1 / 20] \<lparr>shape0 = 1, shape1 = 1, rows = [[1 / 10]]\<rparr>
        (Bounds_pair (Some 0) None) FULLY_INVESTED 1 (19 / 20) = Inl OptimizationFailed"
proof -
  let ?R = "\<lparr>shape0 = 1, shape1 = 1, rows = [[1 / 10 :: real]]\<rparr>"
  let ?p = "\<lparr>w_shape = 1, u_shape = 1,
          objective = Maximize (\<lambda>x. dot [1 / 20] (w_value x)),
          constraints =
            [\<lambda>target_cvar x. alpha_value x
                 + 1 / (real 1 * (1 - 19 / 20)) * sum_list (u_value x) \<le> target_cvar,
             \<lambda>target_cvar x. vec_ge_scalar
                (vec_add (vec_add_scalar (matvec (ndarray_T ?R) (w_value x))
                   (alpha_value x)) (u_value x)) 0,
             \<lambda>target_cvar x. vec_ge_scalar (u_value x) 0,
             \<lambda>target_cvar x. vec_ge_bounds (w_value x) [Some 0],
             \<lambda>target_cvar x. vec_le_bounds (w_value x) [None],
             \<lambda>target_cvar x. sum_list (w_value x) = 1]\<rparr>"
  let ?ok = "\<lambda>(p::problem) (v::real). Some \<lparr>w_value = [1], alpha_value = 0, u_value = [0]\<rparr>"
  let ?no = "\<lambda>(p::problem) (v::real). (None :: assignment option)"
  have built: "mean_cvar_problem [1 / 20] ?R (Bounds_pair (Some 0) None) FULLY_INVESTED
      (19 / 20) = Inr ?p"
    by (simp add: mean_cvar_problem_def get_lower_and_upper_bounds_def)
  have n: "(1::nat) \<ge> 1" by simp
  have c1: "\<forall>v x. ?ok ?p v = Some x \<longrightarrow> length (w_value x) = w_shape ?p" by auto
  have c2: "\<forall>v x. ?no ?p v = Some x \<longrightarrow> length (w_value x) = w_shape ?p" by simp
  have g: "np_logspace (- (7 / 2)) (- (1 / 2)) (Suc 0) = [10 powr (- (7 / 2))]"
    by (simp add: np_logspace_def np_linspace_def)
  from mean_cvar_frontier_sweep [OF built n c1]
  have ok: "mean_cvar ?ok [1 / 20] ?R (Bounds_pair (Some 0) None) FULLY_INVESTED 1 (19 / 20)
      = Inr [[1]]"
    by (cases "mean_cvar ?ok [1 / 20] ?R (Bounds_pair (Some 0) None) FULLY_INVESTED 1 (19 / 20)")
       (simp_all add: g List.map_filter_def)
  from mean_cvar_frontier_sweep [OF built n c2]
  have no: "mean_cvar ?no [1 / 20] ?R (Bounds_pair (Some 0) None) FULLY_INVESTED 1 (19 / 20)
      = Inl OptimizationFailed"
    by (cases "mean_cvar ?no [1 / 20] ?R (Bounds_pair (Some 0) None) FULLY_INVESTED 1 (19 / 20)")
       (simp_all add: g)
  from built n ok no show ?thesis by simp
qed

end
